theory Spec2Isabelle
  imports Main "HOL-Library.Word"
begin

unbundle bit_operations_syntax

section \<open>Python values used by \<open>pycdlib/udf.py\<close>\<close>

text \<open>
  The module is Python 2 code: \<open>str(bytearray)\<close> yields the raw bytes, \<open>bytes\<close> and
  \<open>str\<close> are one type, a one-character string can be stored into a \<open>bytearray\<close>, and
  \<open>/\<close> on two integers is floor division.  The model follows these semantics.
  A byte string is a list of 8-bit words; a Python integer is an \<open>int\<close>.
\<close>

type_synonym byte = "8 word"
type_synonym bytes = "byte list"

datatype error =
    PyCdlibInternalError string
  | PyCdlibInvalidISO string
  | PyCdlibInvalidInput string
  | StructError
  | AttributeError
  | IndexError

text \<open>A slot of an object: never assigned, holding \<open>None\<close>, or holding an integer.\<close>

datatype slot = Unset | PyNone | PyInt int

subsection \<open>The \<open>struct\<close> module, standard sizes, little-endian host\<close>

datatype fmt = Fmt_B | Fmt_H | Fmt_L | Fmt_Q | Fmt_s nat

datatype pyval = PInt int | PBytes bytes

fun fsize :: "fmt \<Rightarrow> nat" where
  "fsize Fmt_B = 1"
| "fsize Fmt_H = 2"
| "fsize Fmt_L = 4"
| "fsize Fmt_Q = 8"
| "fsize (Fmt_s n) = n"

fun calcsize :: "fmt list \<Rightarrow> nat" where
  "calcsize [] = 0"
| "calcsize (f # fs) = fsize f + calcsize fs"

fun le_int :: "bytes \<Rightarrow> int" where
  "le_int [] = 0"
| "le_int (b # bs) = uint b + 256 * le_int bs"

fun le_bytes :: "nat \<Rightarrow> int \<Rightarrow> bytes" where
  "le_bytes 0 v = []"
| "le_bytes (Suc n) v = word_of_int v # le_bytes n (v div 256)"

fun unpack_fields :: "fmt list \<Rightarrow> bytes \<Rightarrow> pyval list" where
  "unpack_fields [] d = []"
| "unpack_fields (Fmt_s n # fs) d = PBytes (take n d) # unpack_fields fs (drop n d)"
| "unpack_fields (f # fs) d =
     PInt (le_int (take (fsize f) d)) # unpack_fields fs (drop (fsize f) d)"

text \<open>\<open>struct.unpack_from(fmt, data, 0)\<close>: the buffer may be longer than the format.\<close>

definition unpack_from :: "fmt list \<Rightarrow> bytes \<Rightarrow> error + pyval list" where
  "unpack_from fs d =
     (if length d < calcsize fs then Inl StructError else Inr (unpack_fields fs d))"

text \<open>\<open>struct.unpack(fmt, data)\<close>: the buffer must have exactly the format's size.\<close>

definition unpack :: "fmt list \<Rightarrow> bytes \<Rightarrow> error + pyval list" where
  "unpack fs d =
     (if length d \<noteq> calcsize fs then Inl StructError else Inr (unpack_fields fs d))"

text \<open>
  \<open>struct.pack\<close>: an integer outside the field's range raises \<open>struct.error\<close>, a byte
  string is cut or padded with NUL bytes to the field's width.
\<close>

fun pack_ok :: "fmt list \<Rightarrow> pyval list \<Rightarrow> bool" where
  "pack_ok [] [] = True"
| "pack_ok (Fmt_s n # fs) (PBytes b # vs) = pack_ok fs vs"
| "pack_ok (Fmt_s n # fs) (PInt v # vs) = False"
| "pack_ok (f # fs) (PInt v # vs) = (0 \<le> v \<and> v < 2 ^ (8 * fsize f) \<and> pack_ok fs vs)"
| "pack_ok _ _ = False"

fun pack_fields :: "fmt list \<Rightarrow> pyval list \<Rightarrow> bytes" where
  "pack_fields (Fmt_s n # fs) (PBytes b # vs) =
     take n b @ replicate (n - length b) 0 @ pack_fields fs vs"
| "pack_fields (f # fs) (PInt v # vs) = le_bytes (fsize f) v @ pack_fields fs vs"
| "pack_fields _ _ = []"

definition pack :: "fmt list \<Rightarrow> pyval list \<Rightarrow> error + bytes" where
  "pack fs vs = (if pack_ok fs vs then Inr (pack_fields fs vs) else Inl StructError)"

section \<open>CRC-CCITT and the tag checksum\<close>

definition POLYNOMIAL :: int where
  "POLYNOMIAL = 0x11021"

fun initial_loop :: "nat \<Rightarrow> int \<Rightarrow> int \<Rightarrow> int" where
  "initial_loop 0 crc c = crc"
| "initial_loop (Suc j) crc c =
     initial_loop j
       (if (crc XOR c) AND 0x8000 \<noteq> 0 then push_bit 1 crc XOR POLYNOMIAL
        else push_bit 1 crc)
       (push_bit 1 c)"

definition initial :: "int \<Rightarrow> int" where
  "initial c = initial_loop 8 0 (push_bit 8 c)"

definition tab :: "int list" where
  "tab = map (\<lambda>i. initial (int i)) [0..<256]"

text \<open>
  \<open>_initial\<close> never masks its result; only \<open>_update_crc\<close> cuts to 16 bits.
\<close>

definition update_crc :: "int \<Rightarrow> int \<Rightarrow> int" where
  "update_crc crc c =
     (let cc = 0xff AND c;
          tmp = drop_bit 8 crc XOR cc;
          crc = push_bit 8 crc XOR tab ! nat (tmp AND 0xff);
          crc = crc AND 0xffff
      in crc)"

fun crc_loop :: "int \<Rightarrow> bytes \<Rightarrow> int" where
  "crc_loop crc [] = crc"
| "crc_loop crc (c # cs) = crc_loop (update_crc crc (uint c)) cs"

definition crc_ccitt :: "bytes \<Rightarrow> int" where
  "crc_ccitt data = crc_loop 0 data"

text \<open>\<open>_compute_csum\<close>: \<open>data[4]\<close> raises \<open>IndexError\<close> on fewer than five bytes.\<close>

definition compute_csum :: "bytes \<Rightarrow> error + int" where
  "compute_csum data =
     (let csum = sum_list (map uint data) in
      if length data \<le> 4 then Inl IndexError
      else Inr ((csum - uint (data ! 4)) mod 256))"

section \<open>UDFTag\<close>

record UDFTag =
  tag_ident :: int
  desc_version :: int
  tag_serial_number :: int
  tag_location :: int

definition UDFTag_FMT :: "fmt list" where
  "UDFTag_FMT = [Fmt_H, Fmt_H, Fmt_B, Fmt_B, Fmt_H, Fmt_H, Fmt_H, Fmt_L]"

definition UDFTag_parse :: "UDFTag option \<Rightarrow> bytes \<Rightarrow> int \<Rightarrow> bytes \<Rightarrow> error + UDFTag" where
  "UDFTag_parse self data extent crc_bytes =
     (if self \<noteq> None then Inl (PyCdlibInternalError ''UDF Tag already initialized'')
      else case unpack_from UDFTag_FMT data of
        Inl e \<Rightarrow> Inl e
      | Inr [PInt tag_ident', PInt desc_version', PInt tag_checksum, PInt reserved,
             PInt tag_serial_number', PInt desc_crc, PInt desc_crc_length, PInt tag_location'] \<Rightarrow>
          if reserved \<noteq> 0 then Inl (PyCdlibInvalidISO ''Reserved data not 0!'')
          else (case compute_csum data of
            Inl e \<Rightarrow> Inl e
          | Inr csum \<Rightarrow>
              if csum \<noteq> tag_checksum then Inl (PyCdlibInvalidISO ''Tag checksum does not match!'')
              else if tag_location' \<noteq> extent then
                Inl (PyCdlibInvalidISO ''Tag location does not match actual location'')
              else if desc_version' \<notin> {2, 3} then
                Inl (PyCdlibInvalidISO ''Tag version not 2 or 3'')
              else if int (length crc_bytes) < desc_crc_length then
                Inl (PyCdlibInternalError ''Not enough CRC bytes to compute'')
              else if desc_crc \<noteq> crc_ccitt (take (nat desc_crc_length) crc_bytes) then
                Inl (PyCdlibInvalidISO ''Tag CRC does not match!'')
              else Inr \<lparr>tag_ident = tag_ident', desc_version = desc_version',
                        tag_serial_number = tag_serial_number', tag_location = tag_location'\<rparr>)
      | Inr _ \<Rightarrow> Inl StructError)"

definition UDFTag_record :: "UDFTag option \<Rightarrow> bytes \<Rightarrow> error + bytes" where
  "UDFTag_record self crc_bytes =
     (case self of
        None \<Rightarrow> Inl (PyCdlibInternalError ''UDF Descriptor Tag not initialized'')
      | Some t \<Rightarrow>
         (case pack UDFTag_FMT [PInt (tag_ident t), PInt (desc_version t), PInt 0, PInt 0,
                 PInt (tag_serial_number t), PInt (crc_ccitt crc_bytes),
                 PInt (int (length crc_bytes)), PInt (tag_location t)] of
            Inl e \<Rightarrow> Inl e
          | Inr rec \<Rightarrow>
             (case compute_csum rec of
                Inl e \<Rightarrow> Inl e
              | Inr csum \<Rightarrow>
                 (case pack [Fmt_B] [PInt csum] of
                    Inl e \<Rightarrow> Inl e
                  | Inr b \<Rightarrow> Inr (rec[4 := hd b])))))"

definition UDFTag_new :: "UDFTag option \<Rightarrow> int \<Rightarrow> int \<Rightarrow> error + UDFTag" where
  "UDFTag_new self tag_ident' tag_serial =
     (if self \<noteq> None then Inl (PyCdlibInternalError ''UDF Tag already initialized'')
      else Inr \<lparr>tag_ident = tag_ident', desc_version = 2,
                tag_serial_number = tag_serial, tag_location = 0\<rparr>)"


section \<open>Volume recognition structures\<close>

text \<open>
  Every descriptor object tracks two locations.  \<open>orig_extent_loc\<close> is assigned by
  \<open>parse\<close> only (\<open>None\<close> here: the slot was never assigned); \<open>new_extent_loc\<close> is
  assigned Python's \<open>None\<close> by \<open>parse\<close> and an integer by \<open>set_location\<close>.
  An object is \<open>None\<close> until \<open>parse\<close> or \<open>new\<close> initialises it, \<open>Some\<close> of its
  fields afterwards.
\<close>

record located =
  orig_extent_loc :: "int option"
  new_extent_loc :: slot

text \<open>The body shared by every \<open>extent_location\<close> method; reading an unset slot raises.\<close>

definition current_extent :: "'a located_scheme \<Rightarrow> error + int" where
  "current_extent d =
     (case new_extent_loc d of
        Unset \<Rightarrow> Inl AttributeError
      | PyNone \<Rightarrow> (case orig_extent_loc d of None \<Rightarrow> Inl AttributeError | Some e \<Rightarrow> Inr e)
      | PyInt n \<Rightarrow> Inr n)"

definition ascii :: "string \<Rightarrow> bytes" where
  "ascii s = map (\<lambda>c. of_char c) s"

definition zeros :: "nat \<Rightarrow> bytes" where
  "zeros n = replicate n 0"

definition VolumeStructure_FMT :: "fmt list" where
  "VolumeStructure_FMT = [Fmt_B, Fmt_s 5, Fmt_B, Fmt_s 2041]"

text \<open>
  \<open>BEAVolumeStructure\<close>, \<open>NSRVolumeStructure\<close> and \<open>TEAVolumeStructure\<close> differ in
  the identifier and in the messages only.
\<close>

definition VolumeStructure_parse ::
  "string \<Rightarrow> string \<Rightarrow> located option \<Rightarrow> bytes \<Rightarrow> int \<Rightarrow> error + located" where
  "VolumeStructure_parse ident already self data extent =
     (if self \<noteq> None then Inl (PyCdlibInternalError already)
      else case unpack_from VolumeStructure_FMT data of
        Inl e \<Rightarrow> Inl e
      | Inr [PInt structure_type, PBytes standard_ident, PInt structure_version,
             PBytes reserved_unused] \<Rightarrow>
          if structure_type \<noteq> 0 then Inl (PyCdlibInvalidISO ''Invalid structure type'')
          else if standard_ident \<noteq> ascii ident then
            Inl (PyCdlibInvalidISO ''Invalid standard identifier'')
          else if structure_version \<noteq> 1 then
            Inl (PyCdlibInvalidISO ''Invalid structure version'')
          else Inr \<lparr>orig_extent_loc = Some extent, new_extent_loc = PyNone\<rparr>
      | Inr _ \<Rightarrow> Inl StructError)"

definition VolumeStructure_record :: "string \<Rightarrow> string \<Rightarrow> located option \<Rightarrow> error + bytes" where
  "VolumeStructure_record ident notinit self =
     (case self of
        None \<Rightarrow> Inl (PyCdlibInternalError notinit)
      | Some d \<Rightarrow>
          pack VolumeStructure_FMT [PInt 0, PBytes (ascii ident), PInt 1, PBytes (zeros 2041)])"

definition VolumeStructure_new :: "string \<Rightarrow> located option \<Rightarrow> error + located" where
  "VolumeStructure_new already self =
     (if self \<noteq> None then Inl (PyCdlibInternalError already)
      else Inr \<lparr>orig_extent_loc = None, new_extent_loc = Unset\<rparr>)"

definition VolumeStructure_extent_location :: "string \<Rightarrow> located option \<Rightarrow> error + int" where
  "VolumeStructure_extent_location notyet self =
     (case self of
        None \<Rightarrow> Inl (PyCdlibInternalError notyet)
      | Some d \<Rightarrow> current_extent d)"

definition BEAVolumeStructure_parse :: "located option \<Rightarrow> bytes \<Rightarrow> int \<Rightarrow> error + located" where
  "BEAVolumeStructure_parse =
     VolumeStructure_parse ''BEA01'' ''BEA Volume Structure already initialized''"

definition BEAVolumeStructure_record :: "located option \<Rightarrow> error + bytes" where
  "BEAVolumeStructure_record =
     VolumeStructure_record ''BEA01'' ''BEA Volume Structure not initialized''"

definition BEAVolumeStructure_new :: "located option \<Rightarrow> error + located" where
  "BEAVolumeStructure_new = VolumeStructure_new ''BEA Volume Structure already initialized''"

definition BEAVolumeStructure_extent_location :: "located option \<Rightarrow> error + int" where
  "BEAVolumeStructure_extent_location =
     VolumeStructure_extent_location ''UDF BEA Volume Structure not yet initialized''"

definition NSRVolumeStructure_parse :: "located option \<Rightarrow> bytes \<Rightarrow> int \<Rightarrow> error + located" where
  "NSRVolumeStructure_parse =
     VolumeStructure_parse ''NSR02'' ''UDF NSR Volume Structure already initialized''"

definition NSRVolumeStructure_record :: "located option \<Rightarrow> error + bytes" where
  "NSRVolumeStructure_record =
     VolumeStructure_record ''NSR02'' ''UDF NSR Volume Structure not initialized''"

definition NSRVolumeStructure_new :: "located option \<Rightarrow> error + located" where
  "NSRVolumeStructure_new = VolumeStructure_new ''UDF NSR Volume Structure already initialized''"

definition NSRVolumeStructure_extent_location :: "located option \<Rightarrow> error + int" where
  "NSRVolumeStructure_extent_location =
     VolumeStructure_extent_location ''UDF NSR Volume Structure not yet initialized''"

definition TEAVolumeStructure_parse :: "located option \<Rightarrow> bytes \<Rightarrow> int \<Rightarrow> error + located" where
  "TEAVolumeStructure_parse =
     VolumeStructure_parse ''TEA01'' ''TEA Volume Structure already initialized''"

definition TEAVolumeStructure_record :: "located option \<Rightarrow> error + bytes" where
  "TEAVolumeStructure_record =
     VolumeStructure_record ''TEA01'' ''UDF TEA Volume Structure not initialized''"

definition TEAVolumeStructure_new :: "located option \<Rightarrow> error + located" where
  "TEAVolumeStructure_new = VolumeStructure_new ''UDF TEA Volume Structure already initialized''"

definition TEAVolumeStructure_extent_location :: "located option \<Rightarrow> error + int" where
  "TEAVolumeStructure_extent_location =
     VolumeStructure_extent_location ''UDF TEA Volume Structure not yet initialized''"

section \<open>UDFAnchorVolumeStructure\<close>

record UDFAnchorVolumeStructure = located +
  main_vd_length :: int
  main_vd_extent :: int
  reserve_vd_length :: int
  reserve_vd_extent :: int
  udf_tag :: UDFTag

definition UDFAnchorVolumeStructure_FMT :: "fmt list" where
  "UDFAnchorVolumeStructure_FMT = [Fmt_s 16, Fmt_L, Fmt_L, Fmt_L, Fmt_L]"

definition UDFAnchorVolumeStructure_parse ::
  "UDFAnchorVolumeStructure option \<Rightarrow> bytes \<Rightarrow> int \<Rightarrow> error + UDFAnchorVolumeStructure" where
  "UDFAnchorVolumeStructure_parse self data extent =
     (if self \<noteq> None then
        Inl (PyCdlibInternalError ''Anchor Volume Structure already initialized'')
      else case unpack_from UDFAnchorVolumeStructure_FMT data of
        Inl e \<Rightarrow> Inl e
      | Inr [PBytes desc_tag, PInt main_vd_length', PInt main_vd_extent',
             PInt reserve_vd_length', PInt reserve_vd_extent'] \<Rightarrow>
          (case UDFTag_parse None desc_tag extent (drop 16 data) of
             Inl e \<Rightarrow> Inl e
           | Inr tag \<Rightarrow>
               if tag_ident tag \<noteq> 2 then Inl (PyCdlibInvalidISO ''Anchor Tag identifier not 2'')
               else Inr \<lparr>orig_extent_loc = Some extent, new_extent_loc = PyNone,
                         main_vd_length = main_vd_length', main_vd_extent = main_vd_extent',
                         reserve_vd_length = reserve_vd_length',
                         reserve_vd_extent = reserve_vd_extent', udf_tag = tag\<rparr>)
      | Inr _ \<Rightarrow> Inl StructError)"

definition UDFAnchorVolumeStructure_record :: "UDFAnchorVolumeStructure option \<Rightarrow> error + bytes" where
  "UDFAnchorVolumeStructure_record self =
     (case self of
        None \<Rightarrow> Inl (PyCdlibInternalError ''UDF Anchor Volume Descriptor not initialized'')
      | Some d \<Rightarrow>
         (case pack UDFAnchorVolumeStructure_FMT
                 [PBytes (zeros 16), PInt (main_vd_length d), PInt (main_vd_extent d),
                  PInt (reserve_vd_length d), PInt (reserve_vd_extent d)] of
            Inl e \<Rightarrow> Inl e
          | Inr packed \<Rightarrow>
             (let rec = drop 16 packed @ zeros 480 in
              case UDFTag_record (Some (udf_tag d)) rec of
                Inl e \<Rightarrow> Inl e
              | Inr t \<Rightarrow> Inr (t @ rec))))"

definition UDFAnchorVolumeStructure_extent_location ::
  "UDFAnchorVolumeStructure option \<Rightarrow> error + int" where
  "UDFAnchorVolumeStructure_extent_location self =
     (case self of
        None \<Rightarrow> Inl (PyCdlibInternalError ''UDF Anchor Volume Structure not yet initialized'')
      | Some d \<Rightarrow> current_extent d)"

definition UDFAnchorVolumeStructure_set_location ::
  "UDFAnchorVolumeStructure option \<Rightarrow> int \<Rightarrow> int \<Rightarrow> int \<Rightarrow> error + UDFAnchorVolumeStructure" where
  "UDFAnchorVolumeStructure_set_location self new_location main_vd_extent' reserve_vd_extent' =
     (case self of
        None \<Rightarrow> Inl (PyCdlibInternalError ''UDF Anchor Volume Structure not yet initialized'')
      | Some d \<Rightarrow>
          Inr (d\<lparr>new_extent_loc := PyInt new_location,
                 udf_tag := (udf_tag d)\<lparr>tag_location := new_location\<rparr>,
                 main_vd_extent := main_vd_extent',
                 reserve_vd_extent := reserve_vd_extent'\<rparr>))"


section \<open>UDFTimestamp\<close>

record UDFTimestamp =
  ts_year :: int
  ts_month :: int
  ts_day :: int
  ts_hour :: int
  ts_minute :: int
  ts_second :: int
  ts_centiseconds :: int
  ts_hundreds_microseconds :: int
  ts_microseconds :: int
  ts_timetype :: int
  ts_tz :: int

definition UDFTimestamp_FMT :: "fmt list" where
  "UDFTimestamp_FMT =
     [Fmt_B, Fmt_B, Fmt_H, Fmt_B, Fmt_B, Fmt_B, Fmt_B, Fmt_B, Fmt_B, Fmt_B, Fmt_B]"

definition twos_comp :: "int \<Rightarrow> nat \<Rightarrow> int" where
  "twos_comp val bits =
     (if val AND push_bit (bits - 1) 1 \<noteq> 0 then val - push_bit bits 1 else val)"

definition UDFTimestamp_parse :: "UDFTimestamp option \<Rightarrow> bytes \<Rightarrow> error + UDFTimestamp" where
  "UDFTimestamp_parse self data =
     (if self \<noteq> None then Inl (PyCdlibInternalError ''UDF Timestamp already initialized'')
      else case unpack_from UDFTimestamp_FMT data of
        Inl e \<Rightarrow> Inl e
      | Inr [PInt tz, PInt timetype, PInt year, PInt month, PInt day, PInt hour, PInt minute,
             PInt second, PInt centiseconds, PInt hundreds_microseconds, PInt microseconds] \<Rightarrow>
          (let timetype' = drop_bit 4 timetype;
               tz' = twos_comp (push_bit 8 (timetype AND 0xf) OR tz) 12
           in if (tz' < - 1440 \<or> tz' > 1440) \<and> tz' \<noteq> - 2047 then
                Inl (PyCdlibInvalidISO ''Invalid UDF timezone'')
              else if year < 1 \<or> year > 9999 then Inl (PyCdlibInvalidISO ''Invalid UDF year'')
              else if month < 1 \<or> month > 12 then Inl (PyCdlibInvalidISO ''Invalid UDF month'')
              else if day < 1 \<or> day > 31 then Inl (PyCdlibInvalidISO ''Invalid UDF day'')
              else if hour < 0 \<or> hour > 23 then Inl (PyCdlibInvalidISO ''Invalid UDF hour'')
              else if minute < 0 \<or> minute > 59 then Inl (PyCdlibInvalidISO ''Invalid UDF minute'')
              else if second < 0 \<or> second > 59 then Inl (PyCdlibInvalidISO ''Invalid UDF second'')
              else Inr \<lparr>ts_year = year, ts_month = month, ts_day = day, ts_hour = hour,
                        ts_minute = minute, ts_second = second, ts_centiseconds = centiseconds,
                        ts_hundreds_microseconds = hundreds_microseconds,
                        ts_microseconds = microseconds, ts_timetype = timetype', ts_tz = tz'\<rparr>)
      | Inr _ \<Rightarrow> Inl StructError)"

definition UDFTimestamp_record :: "UDFTimestamp option \<Rightarrow> error + bytes" where
  "UDFTimestamp_record self =
     (case self of
        None \<Rightarrow> Inl (PyCdlibInternalError ''UDF Timestamp not initialized'')
      | Some d \<Rightarrow>
         (let tmp = (push_bit 16 1 - 1) AND ts_tz d;
              newtz = tmp AND 0xff;
              newtimetype = (drop_bit 8 tmp AND 0x0f) OR push_bit 4 (ts_timetype d)
          in pack UDFTimestamp_FMT
               [PInt newtz, PInt newtimetype, PInt (ts_year d), PInt (ts_month d),
                PInt (ts_day d), PInt (ts_hour d), PInt (ts_minute d), PInt (ts_second d),
                PInt (ts_centiseconds d), PInt (ts_hundreds_microseconds d),
                PInt (ts_microseconds d)]))"

section \<open>UDFEntityID\<close>

record UDFEntityID =
  eid_flags :: int
  eid_identifier :: bytes
  eid_suffix :: bytes

definition UDFEntityID_FMT :: "fmt list" where
  "UDFEntityID_FMT = [Fmt_B, Fmt_s 23, Fmt_s 8]"

definition UDFEntityID_parse :: "UDFEntityID option \<Rightarrow> bytes \<Rightarrow> error + UDFEntityID" where
  "UDFEntityID_parse self data =
     (if self \<noteq> None then Inl (PyCdlibInternalError ''UDF Entity ID already initialized'')
      else case unpack_from UDFEntityID_FMT data of
        Inl e \<Rightarrow> Inl e
      | Inr [PInt flags, PBytes identifier, PBytes suffix] \<Rightarrow>
          Inr \<lparr>eid_flags = flags, eid_identifier = identifier, eid_suffix = suffix\<rparr>
      | Inr _ \<Rightarrow> Inl StructError)"

definition UDFEntityID_record :: "UDFEntityID option \<Rightarrow> error + bytes" where
  "UDFEntityID_record self =
     (case self of
        None \<Rightarrow> Inl (PyCdlibInternalError ''UDF Entity ID not initialized'')
      | Some d \<Rightarrow>
          pack UDFEntityID_FMT
            [PInt (eid_flags d), PBytes (eid_identifier d), PBytes (eid_suffix d)])"

text \<open>
  \<open>new\<close>: \<open>None\<close> for an argument stands for the Python default \<open>None\<close>; the format
  \<open>{:\x00<23}\<close> pads the identifier with NUL bytes on the right.
\<close>

definition UDFEntityID_new ::
  "UDFEntityID option \<Rightarrow> int \<Rightarrow> bytes option \<Rightarrow> bytes option \<Rightarrow> error + UDFEntityID" where
  "UDFEntityID_new self flags identifier suffix =
     (if self \<noteq> None then Inl (PyCdlibInternalError ''UDF Entity ID already initialized'')
      else case identifier of
        Some i \<Rightarrow>
          if length i > 23 then
            Inl (PyCdlibInvalidInput ''UDF Entity ID identifer must be less than 23 characters'')
          else (case suffix of
            Some s \<Rightarrow>
              if length s > 8 then
                Inl (PyCdlibInvalidInput ''UDF Entity ID suffix must be less than 8 characters'')
              else Inr \<lparr>eid_flags = flags, eid_identifier = i @ zeros (23 - length i),
                        eid_suffix = s @ zeros (8 - length s)\<rparr>
          | None \<Rightarrow>
              Inr \<lparr>eid_flags = flags, eid_identifier = i @ zeros (23 - length i),
                   eid_suffix = zeros 8\<rparr>)
      | None \<Rightarrow>
          (case suffix of
            Some s \<Rightarrow>
              if length s > 8 then
                Inl (PyCdlibInvalidInput ''UDF Entity ID suffix must be less than 8 characters'')
              else Inr \<lparr>eid_flags = flags, eid_identifier = zeros 23,
                        eid_suffix = s @ zeros (8 - length s)\<rparr>
          | None \<Rightarrow>
              Inr \<lparr>eid_flags = flags, eid_identifier = zeros 23, eid_suffix = zeros 8\<rparr>))"

section \<open>UDFPrimaryVolumeDescriptor\<close>

text \<open>Descriptors that carry their tag in the attribute \<open>desc_tag\<close>.\<close>

record tagged = located +
  desc_tag :: UDFTag

record UDFPrimaryVolumeDescriptor = tagged +
  pvd_vol_desc_seqnum :: int
  pvd_desc_num :: int
  pvd_volume_identifier :: bytes
  pvd_vol_set_ident :: bytes
  pvd_desc_char_set :: bytes
  pvd_explanatory_char_set :: bytes
  pvd_vol_abstract_length :: int
  pvd_vol_abstract_extent :: int
  pvd_vol_copyright_length :: int
  pvd_vol_copyright_extent :: int
  pvd_implementation_use :: bytes
  pvd_predecessor_vol_desc_location :: int
  pvd_recording_date :: UDFTimestamp
  pvd_app_ident :: UDFEntityID
  pvd_impl_ident :: UDFEntityID

definition UDFPrimaryVolumeDescriptor_FMT :: "fmt list" where
  "UDFPrimaryVolumeDescriptor_FMT =
     [Fmt_s 16, Fmt_L, Fmt_L, Fmt_s 32, Fmt_H, Fmt_H, Fmt_H, Fmt_H, Fmt_L, Fmt_L, Fmt_s 128,
      Fmt_s 64, Fmt_s 64, Fmt_L, Fmt_L, Fmt_L, Fmt_L, Fmt_s 32, Fmt_s 12, Fmt_s 32, Fmt_s 64,
      Fmt_L, Fmt_H, Fmt_s 22]"

definition UDFPrimaryVolumeDescriptor_parse ::
  "UDFPrimaryVolumeDescriptor option \<Rightarrow> bytes \<Rightarrow> int \<Rightarrow> error + UDFPrimaryVolumeDescriptor" where
  "UDFPrimaryVolumeDescriptor_parse self data extent =
     (if self \<noteq> None then
        Inl (PyCdlibInternalError ''UDF Primary Volume Descriptor already initialized'')
      else case unpack_from UDFPrimaryVolumeDescriptor_FMT data of
        Inl e \<Rightarrow> Inl e
      | Inr [PBytes desc_tag', PInt vol_desc_seqnum, PInt desc_num, PBytes volume_identifier,
             PInt vol_seqnum, PInt max_vol_seqnum, PInt interchange_level,
             PInt max_interchange_level, PInt character_set_list, PInt max_character_set_list,
             PBytes vol_set_ident, PBytes desc_char_set, PBytes explanatory_char_set,
             PInt vol_abstract_length, PInt vol_abstract_extent, PInt vol_copyright_length,
             PInt vol_copyright_extent, PBytes app_ident, PBytes recording_date,
             PBytes impl_ident, PBytes implementation_use, PInt predecessor_vol_desc_location,
             PInt flags, PBytes reserved] \<Rightarrow>
          (case UDFTag_parse None desc_tag' extent (drop 16 data) of
             Inl e \<Rightarrow> Inl e
           | Inr tag \<Rightarrow>
               if tag_ident tag \<noteq> 1 then
                 Inl (PyCdlibInvalidISO ''UDF Primary Descriptor Tag identifier not 1'')
               else if vol_seqnum \<noteq> 1 then
                 Inl (PyCdlibInvalidISO ''Only DVD Read-Only disks are supported'')
               else if max_vol_seqnum \<noteq> 1 then
                 Inl (PyCdlibInvalidISO ''Only DVD Read-Only disks are supported'')
               else if interchange_level \<noteq> 2 then
                 Inl (PyCdlibInvalidISO ''Only DVD Read-Only disks are supported'')
               else if max_interchange_level \<noteq> 2 then
                 Inl (PyCdlibInvalidISO ''Only DVD Read-Only disks are supported'')
               else if character_set_list \<noteq> 1 then
                 Inl (PyCdlibInvalidISO ''Only DVD Read-Only disks are supported'')
               else if max_character_set_list \<noteq> 1 then
                 Inl (PyCdlibInvalidISO ''Only DVD Read-Only disks are supported'')
               else if flags \<noteq> 0 then
                 Inl (PyCdlibInvalidISO ''Only DVD Read-Only disks are supported'')
               else if reserved \<noteq> zeros 22 then
                 Inl (PyCdlibInvalidISO ''UDF Primary Volume Descriptor reserved data not 0'')
               else (case UDFTimestamp_parse None recording_date of
                 Inl e \<Rightarrow> Inl e
               | Inr date \<Rightarrow>
                  (case UDFEntityID_parse None app_ident of
                     Inl e \<Rightarrow> Inl e
                   | Inr app \<Rightarrow>
                      (case UDFEntityID_parse None impl_ident of
                         Inl e \<Rightarrow> Inl e
                       | Inr impl \<Rightarrow>
                           Inr \<lparr>orig_extent_loc = Some extent, new_extent_loc = PyNone,
                                desc_tag = tag,
                                pvd_vol_desc_seqnum = vol_desc_seqnum, pvd_desc_num = desc_num,
                                pvd_volume_identifier = volume_identifier,
                                pvd_vol_set_ident = vol_set_ident,
                                pvd_desc_char_set = desc_char_set,
                                pvd_explanatory_char_set = explanatory_char_set,
                                pvd_vol_abstract_length = vol_abstract_length,
                                pvd_vol_abstract_extent = vol_abstract_extent,
                                pvd_vol_copyright_length = vol_copyright_length,
                                pvd_vol_copyright_extent = vol_copyright_extent,
                                pvd_implementation_use = implementation_use,
                                pvd_predecessor_vol_desc_location =
                                  predecessor_vol_desc_location,
                                pvd_recording_date = date, pvd_app_ident = app,
                                pvd_impl_ident = impl\<rparr>))))
      | Inr _ \<Rightarrow> Inl StructError)"

definition UDFPrimaryVolumeDescriptor_record ::
  "UDFPrimaryVolumeDescriptor option \<Rightarrow> error + bytes" where
  "UDFPrimaryVolumeDescriptor_record self =
     (case self of
        None \<Rightarrow> Inl (PyCdlibInternalError ''UDF Primary Volume Descriptor not initialized'')
      | Some d \<Rightarrow>
         (case UDFEntityID_record (Some (pvd_app_ident d)) of
            Inl e \<Rightarrow> Inl e
          | Inr app \<Rightarrow>
         (case UDFTimestamp_record (Some (pvd_recording_date d)) of
            Inl e \<Rightarrow> Inl e
          | Inr date \<Rightarrow>
         (case UDFEntityID_record (Some (pvd_impl_ident d)) of
            Inl e \<Rightarrow> Inl e
          | Inr impl \<Rightarrow>
         (case pack UDFPrimaryVolumeDescriptor_FMT
                 [PBytes (zeros 16), PInt (pvd_vol_desc_seqnum d), PInt (pvd_desc_num d),
                  PBytes (pvd_volume_identifier d), PInt 1, PInt 1, PInt 2, PInt 2, PInt 1,
                  PInt 1, PBytes (pvd_vol_set_ident d), PBytes (pvd_desc_char_set d),
                  PBytes (pvd_explanatory_char_set d), PInt (pvd_vol_abstract_length d),
                  PInt (pvd_vol_abstract_extent d), PInt (pvd_vol_copyright_length d),
                  PInt (pvd_vol_copyright_extent d), PBytes app, PBytes date, PBytes impl,
                  PBytes (pvd_implementation_use d),
                  PInt (pvd_predecessor_vol_desc_location d), PInt 0, PBytes (zeros 22)] of
            Inl e \<Rightarrow> Inl e
          | Inr packed \<Rightarrow>
             (let rec = drop 16 packed in
              case UDFTag_record (Some (desc_tag d)) rec of
                Inl e \<Rightarrow> Inl e
              | Inr t \<Rightarrow> Inr (t @ rec)))))))"

definition UDFPrimaryVolumeDescriptor_extent_location ::
  "UDFPrimaryVolumeDescriptor option \<Rightarrow> error + int" where
  "UDFPrimaryVolumeDescriptor_extent_location self =
     (case self of
        None \<Rightarrow>
          Inl (PyCdlibInternalError ''UDF Primary Volume Descriptor not yet initialized'')
      | Some d \<Rightarrow> current_extent d)"

definition UDFPrimaryVolumeDescriptor_set_location ::
  "UDFPrimaryVolumeDescriptor option \<Rightarrow> int \<Rightarrow> error + UDFPrimaryVolumeDescriptor" where
  "UDFPrimaryVolumeDescriptor_set_location self new_location =
     (case self of
        None \<Rightarrow>
          Inl (PyCdlibInternalError ''UDF Primary Volume Descriptor not yet initialized'')
      | Some d \<Rightarrow>
          Inr (d\<lparr>new_extent_loc := PyInt new_location,
                 desc_tag := (desc_tag d)\<lparr>tag_location := new_location\<rparr>\<rparr>))"

section \<open>UDFImplementationUseVolumeDescriptorImplementationUse\<close>

record UDFImplementationUseVolumeDescriptorImplementationUse =
  iuvdiu_charset :: bytes
  iuvdiu_log_vol_ident :: bytes
  iuvdiu_lv_info1 :: bytes
  iuvdiu_lv_info2 :: bytes
  iuvdiu_lv_info3 :: bytes
  iuvdiu_impl_ident :: UDFEntityID
  iuvdiu_impl_use :: bytes

definition UDFImplementationUseVolumeDescriptorImplementationUse_FMT :: "fmt list" where
  "UDFImplementationUseVolumeDescriptorImplementationUse_FMT =
     [Fmt_s 64, Fmt_s 128, Fmt_s 36, Fmt_s 36, Fmt_s 36, Fmt_s 32, Fmt_s 128]"

definition UDFImplementationUseVolumeDescriptorImplementationUse_parse ::
  "UDFImplementationUseVolumeDescriptorImplementationUse option \<Rightarrow> bytes \<Rightarrow>
     error + UDFImplementationUseVolumeDescriptorImplementationUse" where
  "UDFImplementationUseVolumeDescriptorImplementationUse_parse self data =
     (if self \<noteq> None then
        Inl (PyCdlibInternalError
          ''UDF Implementation Use Volume Descriptor Implementation Use field already initialized'')
      else case unpack_from UDFImplementationUseVolumeDescriptorImplementationUse_FMT data of
        Inl e \<Rightarrow> Inl e
      | Inr [PBytes charset, PBytes log_vol_ident, PBytes lv_info1, PBytes lv_info2,
             PBytes lv_info3, PBytes impl_ident, PBytes impl_use] \<Rightarrow>
          (case UDFEntityID_parse None impl_ident of
             Inl e \<Rightarrow> Inl e
           | Inr impl \<Rightarrow>
               Inr \<lparr>iuvdiu_charset = charset, iuvdiu_log_vol_ident = log_vol_ident,
                    iuvdiu_lv_info1 = lv_info1, iuvdiu_lv_info2 = lv_info2,
                    iuvdiu_lv_info3 = lv_info3, iuvdiu_impl_ident = impl,
                    iuvdiu_impl_use = impl_use\<rparr>)
      | Inr _ \<Rightarrow> Inl StructError)"

definition UDFImplementationUseVolumeDescriptorImplementationUse_record ::
  "UDFImplementationUseVolumeDescriptorImplementationUse option \<Rightarrow> error + bytes" where
  "UDFImplementationUseVolumeDescriptorImplementationUse_record self =
     (case self of
        None \<Rightarrow>
          Inl (PyCdlibInternalError
            ''UDF Implementation Use Volume Descriptor Implementation Use field not initialized'')
      | Some d \<Rightarrow>
         (case UDFEntityID_record (Some (iuvdiu_impl_ident d)) of
            Inl e \<Rightarrow> Inl e
          | Inr impl \<Rightarrow>
              pack UDFImplementationUseVolumeDescriptorImplementationUse_FMT
                [PBytes (iuvdiu_charset d), PBytes (iuvdiu_log_vol_ident d),
                 PBytes (iuvdiu_lv_info1 d), PBytes (iuvdiu_lv_info2 d),
                 PBytes (iuvdiu_lv_info3 d), PBytes impl, PBytes (iuvdiu_impl_use d)]))"

section \<open>UDFImplementationUseVolumeDescriptor\<close>

record UDFImplementationUseVolumeDescriptor = tagged +
  iuvd_vol_desc_seqnum :: int
  iuvd_impl_use :: UDFImplementationUseVolumeDescriptorImplementationUse
  iuvd_impl_ident :: UDFEntityID

definition UDFImplementationUseVolumeDescriptor_FMT :: "fmt list" where
  "UDFImplementationUseVolumeDescriptor_FMT = [Fmt_s 16, Fmt_L, Fmt_s 32, Fmt_s 460]"

definition UDFImplementationUseVolumeDescriptor_parse ::
  "UDFImplementationUseVolumeDescriptor option \<Rightarrow> bytes \<Rightarrow> int \<Rightarrow>
     error + UDFImplementationUseVolumeDescriptor" where
  "UDFImplementationUseVolumeDescriptor_parse self data extent =
     (if self \<noteq> None then
        Inl (PyCdlibInternalError
          ''UDF Implementation Use Volume Descriptor already initialized'')
      else case unpack_from UDFImplementationUseVolumeDescriptor_FMT data of
        Inl e \<Rightarrow> Inl e
      | Inr [PBytes desc_tag', PInt vol_desc_seqnum, PBytes impl_ident, PBytes impl_use] \<Rightarrow>
          (case UDFTag_parse None desc_tag' extent (drop 16 data) of
             Inl e \<Rightarrow> Inl e
           | Inr tag \<Rightarrow>
               if tag_ident tag \<noteq> 4 then
                 Inl (PyCdlibInvalidISO ''Implementation Use Descriptor Tag identifier not 4'')
               else (case UDFEntityID_parse None impl_ident of
                 Inl e \<Rightarrow> Inl e
               | Inr ident \<Rightarrow>
                   if take 12 (eid_identifier ident) \<noteq> ascii ''*UDF LV Info'' then
                     Inl (PyCdlibInvalidISO
                       ''Implementation Use Identifier not *UDF LV Info'')
                   else (case UDFImplementationUseVolumeDescriptorImplementationUse_parse
                                None impl_use of
                     Inl e \<Rightarrow> Inl e
                   | Inr use \<Rightarrow>
                       Inr \<lparr>orig_extent_loc = Some extent, new_extent_loc = PyNone,
                            desc_tag = tag, iuvd_vol_desc_seqnum = vol_desc_seqnum,
                            iuvd_impl_use = use, iuvd_impl_ident = ident\<rparr>)))
      | Inr _ \<Rightarrow> Inl StructError)"

definition UDFImplementationUseVolumeDescriptor_record ::
  "UDFImplementationUseVolumeDescriptor option \<Rightarrow> error + bytes" where
  "UDFImplementationUseVolumeDescriptor_record self =
     (case self of
        None \<Rightarrow>
          Inl (PyCdlibInternalError ''UDF Implementation Use Volume Descriptor not initialized'')
      | Some d \<Rightarrow>
         (case UDFEntityID_record (Some (iuvd_impl_ident d)) of
            Inl e \<Rightarrow> Inl e
          | Inr ident \<Rightarrow>
         (case UDFImplementationUseVolumeDescriptorImplementationUse_record
                 (Some (iuvd_impl_use d)) of
            Inl e \<Rightarrow> Inl e
          | Inr use \<Rightarrow>
         (case pack UDFImplementationUseVolumeDescriptor_FMT
                 [PBytes (zeros 16), PInt (iuvd_vol_desc_seqnum d), PBytes ident, PBytes use] of
            Inl e \<Rightarrow> Inl e
          | Inr packed \<Rightarrow>
             (let rec = drop 16 packed in
              case UDFTag_record (Some (desc_tag d)) rec of
                Inl e \<Rightarrow> Inl e
              | Inr t \<Rightarrow> Inr (t @ rec))))))"

definition UDFImplementationUseVolumeDescriptor_extent_location ::
  "UDFImplementationUseVolumeDescriptor option \<Rightarrow> error + int" where
  "UDFImplementationUseVolumeDescriptor_extent_location self =
     (case self of
        None \<Rightarrow>
          Inl (PyCdlibInternalError ''UDF Implementation Use Volume Descriptor not initialized'')
      | Some d \<Rightarrow> current_extent d)"

definition UDFImplementationUseVolumeDescriptor_set_location ::
  "UDFImplementationUseVolumeDescriptor option \<Rightarrow> int \<Rightarrow>
     error + UDFImplementationUseVolumeDescriptor" where
  "UDFImplementationUseVolumeDescriptor_set_location self new_location =
     (case self of
        None \<Rightarrow>
          Inl (PyCdlibInternalError ''UDF Implementation Use Volume Descriptor not initialized'')
      | Some d \<Rightarrow>
          Inr (d\<lparr>new_extent_loc := PyInt new_location,
                 desc_tag := (desc_tag d)\<lparr>tag_location := new_location\<rparr>\<rparr>))"

section \<open>UDFPartitionHeaderDescriptor\<close>

text \<open>The class has no attribute beside its initialisation flag.\<close>

type_synonym UDFPartitionHeaderDescriptor = unit

definition UDFPartitionHeaderDescriptor_FMT :: "fmt list" where
  "UDFPartitionHeaderDescriptor_FMT =
     [Fmt_L, Fmt_L, Fmt_L, Fmt_L, Fmt_L, Fmt_L, Fmt_L, Fmt_L, Fmt_L, Fmt_L, Fmt_s 88]"

definition UDFPartitionHeaderDescriptor_parse ::
  "UDFPartitionHeaderDescriptor option \<Rightarrow> bytes \<Rightarrow> error + UDFPartitionHeaderDescriptor" where
  "UDFPartitionHeaderDescriptor_parse self data =
     (if self \<noteq> None then
        Inl (PyCdlibInternalError ''UDF Partition Header Descriptor already initialized'')
      else case unpack_from UDFPartitionHeaderDescriptor_FMT data of
        Inl e \<Rightarrow> Inl e
      | Inr [PInt unalloc_table_length, PInt unalloc_table_pos, PInt unalloc_bitmap_length,
             PInt unalloc_bitmap_pos, PInt part_integrity_table_length,
             PInt part_integrity_table_pos, PInt freed_table_length, PInt freed_table_pos,
             PInt freed_bitmap_length, PInt freed_bitmap_pos, PBytes reserved_unused] \<Rightarrow>
          if unalloc_table_length \<noteq> 0 then
            Inl (PyCdlibInvalidISO ''Partition Header unallocated table length not 0'')
          else if unalloc_table_pos \<noteq> 0 then
            Inl (PyCdlibInvalidISO ''Partition Header unallocated table position not 0'')
          else if unalloc_bitmap_length \<noteq> 0 then
            Inl (PyCdlibInvalidISO ''Partition Header unallocated bitmap length not 0'')
          else if unalloc_bitmap_pos \<noteq> 0 then
            Inl (PyCdlibInvalidISO ''Partition Header unallocated bitmap position not 0'')
          else if part_integrity_table_length \<noteq> 0 then
            Inl (PyCdlibInvalidISO ''Partition Header partition integrity length not 0'')
          else if part_integrity_table_pos \<noteq> 0 then
            Inl (PyCdlibInvalidISO ''Partition Header partition integrity position not 0'')
          else if freed_table_length \<noteq> 0 then
            Inl (PyCdlibInvalidISO ''Partition Header freed table length not 0'')
          else if freed_table_pos \<noteq> 0 then
            Inl (PyCdlibInvalidISO ''Partition Header freed table position not 0'')
          else if freed_bitmap_length \<noteq> 0 then
            Inl (PyCdlibInvalidISO ''Partition Header freed bitmap length not 0'')
          else if freed_bitmap_pos \<noteq> 0 then
            Inl (PyCdlibInvalidISO ''Partition Header freed bitmap position not 0'')
          else Inr ()
      | Inr _ \<Rightarrow> Inl StructError)"

definition UDFPartitionHeaderDescriptor_record ::
  "UDFPartitionHeaderDescriptor option \<Rightarrow> error + bytes" where
  "UDFPartitionHeaderDescriptor_record self =
     (case self of
        None \<Rightarrow> Inl (PyCdlibInternalError ''UDF Partition Header Descriptor not initialized'')
      | Some d \<Rightarrow>
          pack UDFPartitionHeaderDescriptor_FMT
            [PInt 0, PInt 0, PInt 0, PInt 0, PInt 0, PInt 0, PInt 0, PInt 0, PInt 0, PInt 0,
             PBytes (zeros 88)])"

section \<open>UDFPartitionVolumeDescriptor\<close>

record UDFPartitionVolumeDescriptor = tagged +
  partvd_vol_desc_seqnum :: int
  partvd_part_flags :: int
  partvd_part_num :: int
  partvd_access_type :: int
  partvd_part_start_location :: int
  partvd_part_length :: int
  partvd_implementation_use :: bytes
  partvd_part_contents :: UDFEntityID
  partvd_impl_ident :: UDFEntityID
  partvd_part_contents_use :: UDFPartitionHeaderDescriptor

definition UDFPartitionVolumeDescriptor_FMT :: "fmt list" where
  "UDFPartitionVolumeDescriptor_FMT =
     [Fmt_s 16, Fmt_L, Fmt_H, Fmt_H, Fmt_s 32, Fmt_s 128, Fmt_L, Fmt_L, Fmt_L, Fmt_s 32,
      Fmt_s 128, Fmt_s 156]"

definition UDFPartitionVolumeDescriptor_parse ::
  "UDFPartitionVolumeDescriptor option \<Rightarrow> bytes \<Rightarrow> int \<Rightarrow>
     error + UDFPartitionVolumeDescriptor" where
  "UDFPartitionVolumeDescriptor_parse self data extent =
     (if self \<noteq> None then
        Inl (PyCdlibInternalError ''UDF Partition Volume Descriptor already initialized'')
      else case unpack_from UDFPartitionVolumeDescriptor_FMT data of
        Inl e \<Rightarrow> Inl e
      | Inr [PBytes desc_tag', PInt vol_desc_seqnum, PInt part_flags, PInt part_num,
             PBytes part_contents, PBytes part_contents_use, PInt access_type,
             PInt part_start_location, PInt part_length, PBytes impl_ident,
             PBytes implementation_use, PBytes reserved_unused] \<Rightarrow>
          (case UDFTag_parse None desc_tag' extent (drop 16 data) of
             Inl e \<Rightarrow> Inl e
           | Inr tag \<Rightarrow>
               if tag_ident tag \<noteq> 5 then
                 Inl (PyCdlibInvalidISO ''Implementation Use Descriptor Tag identifier not 5'')
               else (case UDFEntityID_parse None part_contents of
                 Inl e \<Rightarrow> Inl e
               | Inr contents \<Rightarrow>
                   if eid_flags contents \<noteq> 2 then
                     Inl (PyCdlibInvalidISO ''Partition Contents Flags not 2'')
                   else if take 6 (eid_identifier contents) \<noteq> ascii ''+NSR02'' then
                     Inl (PyCdlibInvalidISO
                       ''Partition Contents Identifier not +NSR02'')
                   else (case UDFEntityID_parse None impl_ident of
                     Inl e \<Rightarrow> Inl e
                   | Inr impl \<Rightarrow>
                      (case UDFPartitionHeaderDescriptor_parse None part_contents_use of
                         Inl e \<Rightarrow> Inl e
                       | Inr header \<Rightarrow>
                           Inr \<lparr>orig_extent_loc = Some extent, new_extent_loc = PyNone,
                                desc_tag = tag, partvd_vol_desc_seqnum = vol_desc_seqnum,
                                partvd_part_flags = part_flags, partvd_part_num = part_num,
                                partvd_access_type = access_type,
                                partvd_part_start_location = part_start_location,
                                partvd_part_length = part_length,
                                partvd_implementation_use = implementation_use,
                                partvd_part_contents = contents, partvd_impl_ident = impl,
                                partvd_part_contents_use = header\<rparr>))))
      | Inr _ \<Rightarrow> Inl StructError)"

definition UDFPartitionVolumeDescriptor_record ::
  "UDFPartitionVolumeDescriptor option \<Rightarrow> error + bytes" where
  "UDFPartitionVolumeDescriptor_record self =
     (case self of
        None \<Rightarrow> Inl (PyCdlibInternalError ''UDF Partition Volume Descriptor not initialized'')
      | Some d \<Rightarrow>
         (case UDFEntityID_record (Some (partvd_part_contents d)) of
            Inl e \<Rightarrow> Inl e
          | Inr contents \<Rightarrow>
         (case UDFPartitionHeaderDescriptor_record (Some (partvd_part_contents_use d)) of
            Inl e \<Rightarrow> Inl e
          | Inr header \<Rightarrow>
         (case UDFEntityID_record (Some (partvd_impl_ident d)) of
            Inl e \<Rightarrow> Inl e
          | Inr impl \<Rightarrow>
         (case pack UDFPartitionVolumeDescriptor_FMT
                 [PBytes (zeros 16), PInt (partvd_vol_desc_seqnum d), PInt (partvd_part_flags d),
                  PInt (partvd_part_num d), PBytes contents, PBytes header,
                  PInt (partvd_access_type d), PInt (partvd_part_start_location d),
                  PInt (partvd_part_length d), PBytes impl,
                  PBytes (partvd_implementation_use d), PBytes (zeros 156)] of
            Inl e \<Rightarrow> Inl e
          | Inr packed \<Rightarrow>
             (let rec = drop 16 packed in
              case UDFTag_record (Some (desc_tag d)) rec of
                Inl e \<Rightarrow> Inl e
              | Inr t \<Rightarrow> Inr (t @ rec)))))))"

definition UDFPartitionVolumeDescriptor_extent_location ::
  "UDFPartitionVolumeDescriptor option \<Rightarrow> error + int" where
  "UDFPartitionVolumeDescriptor_extent_location self =
     (case self of
        None \<Rightarrow> Inl (PyCdlibInternalError ''UDF Partition Volume Descriptor not initialized'')
      | Some d \<Rightarrow> current_extent d)"

definition UDFPartitionVolumeDescriptor_set_location ::
  "UDFPartitionVolumeDescriptor option \<Rightarrow> int \<Rightarrow> error + UDFPartitionVolumeDescriptor" where
  "UDFPartitionVolumeDescriptor_set_location self new_location =
     (case self of
        None \<Rightarrow> Inl (PyCdlibInternalError ''UDF Partition Volume Descriptor not initialized'')
      | Some d \<Rightarrow>
          Inr (d\<lparr>new_extent_loc := PyInt new_location,
                 desc_tag := (desc_tag d)\<lparr>tag_location := new_location\<rparr>\<rparr>))"

definition UDFPartitionVolumeDescriptor_set_start_location ::
  "UDFPartitionVolumeDescriptor option \<Rightarrow> int \<Rightarrow> error + UDFPartitionVolumeDescriptor" where
  "UDFPartitionVolumeDescriptor_set_start_location self new_location =
     (case self of
        None \<Rightarrow> Inl (PyCdlibInternalError ''UDF Partition Volume Descriptor not initialized'')
      | Some d \<Rightarrow> Inr (d\<lparr>partvd_part_start_location := new_location\<rparr>))"

section \<open>UDFPartitionMap and UDFLongAD\<close>

record UDFPartitionMap =
  pmap_part_num :: int

definition UDFPartitionMap_FMT :: "fmt list" where
  "UDFPartitionMap_FMT = [Fmt_B, Fmt_B, Fmt_H, Fmt_H]"

definition UDFPartitionMap_parse ::
  "UDFPartitionMap option \<Rightarrow> bytes \<Rightarrow> error + UDFPartitionMap" where
  "UDFPartitionMap_parse self data =
     (if self \<noteq> None then Inl (PyCdlibInternalError ''UDF Partition Map already initialized'')
      else case unpack_from UDFPartitionMap_FMT data of
        Inl e \<Rightarrow> Inl e
      | Inr [PInt map_type, PInt map_length, PInt vol_seqnum, PInt part_num] \<Rightarrow>
          if map_type \<noteq> 1 then Inl (PyCdlibInvalidISO ''UDF Partition Map type is not 1'')
          else if map_length \<noteq> 6 then
            Inl (PyCdlibInvalidISO ''UDF Partition Map length is not 6'')
          else if vol_seqnum \<noteq> 1 then
            Inl (PyCdlibInvalidISO ''UDF Partition Volume Sequence Number is not 1'')
          else Inr \<lparr>pmap_part_num = part_num\<rparr>
      | Inr _ \<Rightarrow> Inl StructError)"

definition UDFPartitionMap_record :: "UDFPartitionMap option \<Rightarrow> error + bytes" where
  "UDFPartitionMap_record self =
     (case self of
        None \<Rightarrow> Inl (PyCdlibInternalError ''UDF Partition Map not initialized'')
      | Some d \<Rightarrow> pack UDFPartitionMap_FMT [PInt 1, PInt 6, PInt 1, PInt (pmap_part_num d)])"

record UDFLongAD =
  lad_extent_length :: int
  lad_log_block_num :: int
  lad_part_ref_num :: int
  lad_impl_use :: bytes

definition UDFLongAD_FMT :: "fmt list" where
  "UDFLongAD_FMT = [Fmt_L, Fmt_L, Fmt_H, Fmt_s 6]"

definition UDFLongAD_parse :: "UDFLongAD option \<Rightarrow> bytes \<Rightarrow> error + UDFLongAD" where
  "UDFLongAD_parse self data =
     (if self \<noteq> None then
        Inl (PyCdlibInternalError ''UDF Long Allocation descriptor already initialized'')
      else case unpack_from UDFLongAD_FMT data of
        Inl e \<Rightarrow> Inl e
      | Inr [PInt extent_length, PInt log_block_num, PInt part_ref_num, PBytes impl_use] \<Rightarrow>
          Inr \<lparr>lad_extent_length = extent_length, lad_log_block_num = log_block_num,
               lad_part_ref_num = part_ref_num, lad_impl_use = impl_use\<rparr>
      | Inr _ \<Rightarrow> Inl StructError)"

definition UDFLongAD_record :: "UDFLongAD option \<Rightarrow> error + bytes" where
  "UDFLongAD_record self =
     (case self of
        None \<Rightarrow> Inl (PyCdlibInternalError ''UDF Long AD not initialized'')
      | Some d \<Rightarrow>
          pack UDFLongAD_FMT
            [PInt (lad_extent_length d), PInt (lad_log_block_num d), PInt (lad_part_ref_num d),
             PBytes (lad_impl_use d)])"

definition UDFLongAD_new :: "UDFLongAD option \<Rightarrow> int \<Rightarrow> int \<Rightarrow> error + UDFLongAD" where
  "UDFLongAD_new self length' blocknum =
     (if self \<noteq> None then Inl (PyCdlibInternalError ''UDF Long AD already initialized'')
      else Inr \<lparr>lad_extent_length = length', lad_log_block_num = blocknum,
                lad_part_ref_num = 0, lad_impl_use = zeros 6\<rparr>)"

section \<open>UDFLogicalVolumeDescriptor\<close>

record UDFLogicalVolumeDescriptor = tagged +
  lvd_vol_desc_seqnum :: int
  lvd_desc_charset :: bytes
  lvd_logical_volume_ident :: bytes
  lvd_implementation_use :: bytes
  lvd_integrity_sequence_length :: int
  lvd_integrity_sequence_extent :: int
  lvd_domain_ident :: UDFEntityID
  lvd_impl_ident :: UDFEntityID
  lvd_partition_map :: UDFPartitionMap
  lvd_logical_volume_contents_use :: UDFLongAD

definition UDFLogicalVolumeDescriptor_FMT :: "fmt list" where
  "UDFLogicalVolumeDescriptor_FMT =
     [Fmt_s 16, Fmt_L, Fmt_s 64, Fmt_s 128, Fmt_L, Fmt_s 32, Fmt_s 16, Fmt_L, Fmt_L, Fmt_s 32,
      Fmt_s 128, Fmt_L, Fmt_L, Fmt_s 6]"

definition UDFLogicalVolumeDescriptor_parse ::
  "UDFLogicalVolumeDescriptor option \<Rightarrow> bytes \<Rightarrow> int \<Rightarrow> error + UDFLogicalVolumeDescriptor" where
  "UDFLogicalVolumeDescriptor_parse self data extent =
     (if self \<noteq> None then
        Inl (PyCdlibInternalError ''UDF Logical Volume Descriptor already initialized'')
      else case unpack_from UDFLogicalVolumeDescriptor_FMT data of
        Inl e \<Rightarrow> Inl e
      | Inr [PBytes desc_tag', PInt vol_desc_seqnum, PBytes desc_charset,
             PBytes logical_volume_ident, PInt logical_block_size, PBytes domain_ident,
             PBytes logical_volume_contents_use, PInt map_table_length,
             PInt num_partition_maps, PBytes impl_ident, PBytes implementation_use,
             PInt integrity_sequence_length, PInt integrity_sequence_extent,
             PBytes partition_map] \<Rightarrow>
          (case UDFTag_parse None desc_tag' extent (drop 16 data) of
             Inl e \<Rightarrow> Inl e
           | Inr tag \<Rightarrow>
               if tag_ident tag \<noteq> 6 then
                 Inl (PyCdlibInvalidISO ''Volume Descriptor Tag identifier not 6'')
               else if logical_block_size \<noteq> 2048 then
                 Inl (PyCdlibInvalidISO ''Volume Descriptor block size is not 2048'')
               else (case UDFEntityID_parse None domain_ident of
                 Inl e \<Rightarrow> Inl e
               | Inr domain \<Rightarrow>
                   if take 19 (eid_identifier domain) \<noteq> ascii ''*OSTA UDF Compliant'' then
                     Inl (PyCdlibInvalidISO
                       ''Volume Descriptor Identifier not *OSTA UDF Compliant'')
                   else if map_table_length \<noteq> 6 then
                     Inl (PyCdlibInvalidISO ''Volume Descriptor map table length not 6'')
                   else if num_partition_maps \<noteq> 1 then
                     Inl (PyCdlibInvalidISO ''Volume Descriptor number of partition maps not 1'')
                   else (case UDFEntityID_parse None impl_ident of
                     Inl e \<Rightarrow> Inl e
                   | Inr impl \<Rightarrow>
                      (case UDFPartitionMap_parse None partition_map of
                         Inl e \<Rightarrow> Inl e
                       | Inr pmap \<Rightarrow>
                          (case UDFLongAD_parse None logical_volume_contents_use of
                             Inl e \<Rightarrow> Inl e
                           | Inr contents \<Rightarrow>
                               Inr \<lparr>orig_extent_loc = Some extent, new_extent_loc = PyNone,
                                    desc_tag = tag, lvd_vol_desc_seqnum = vol_desc_seqnum,
                                    lvd_desc_charset = desc_charset,
                                    lvd_logical_volume_ident = logical_volume_ident,
                                    lvd_implementation_use = implementation_use,
                                    lvd_integrity_sequence_length = integrity_sequence_length,
                                    lvd_integrity_sequence_extent = integrity_sequence_extent,
                                    lvd_domain_ident = domain, lvd_impl_ident = impl,
                                    lvd_partition_map = pmap,
                                    lvd_logical_volume_contents_use = contents\<rparr>)))))
      | Inr _ \<Rightarrow> Inl StructError)"

definition UDFLogicalVolumeDescriptor_record ::
  "UDFLogicalVolumeDescriptor option \<Rightarrow> error + bytes" where
  "UDFLogicalVolumeDescriptor_record self =
     (case self of
        None \<Rightarrow> Inl (PyCdlibInternalError ''UDF Logical Volume Descriptor not initialized'')
      | Some d \<Rightarrow>
         (case UDFEntityID_record (Some (lvd_domain_ident d)) of
            Inl e \<Rightarrow> Inl e
          | Inr domain \<Rightarrow>
         (case UDFLongAD_record (Some (lvd_logical_volume_contents_use d)) of
            Inl e \<Rightarrow> Inl e
          | Inr contents \<Rightarrow>
         (case UDFEntityID_record (Some (lvd_impl_ident d)) of
            Inl e \<Rightarrow> Inl e
          | Inr impl \<Rightarrow>
         (case UDFPartitionMap_record (Some (lvd_partition_map d)) of
            Inl e \<Rightarrow> Inl e
          | Inr pmap \<Rightarrow>
         (case pack UDFLogicalVolumeDescriptor_FMT
                 [PBytes (zeros 16), PInt (lvd_vol_desc_seqnum d), PBytes (lvd_desc_charset d),
                  PBytes (lvd_logical_volume_ident d), PInt 2048, PBytes domain,
                  PBytes contents, PInt 6, PInt 1, PBytes impl,
                  PBytes (lvd_implementation_use d), PInt (lvd_integrity_sequence_length d),
                  PInt (lvd_integrity_sequence_extent d), PBytes pmap] of
            Inl e \<Rightarrow> Inl e
          | Inr packed \<Rightarrow>
             (let rec = drop 16 packed in
              case UDFTag_record (Some (desc_tag d)) rec of
                Inl e \<Rightarrow> Inl e
              | Inr t \<Rightarrow> Inr (t @ rec))))))))"

definition UDFLogicalVolumeDescriptor_extent_location ::
  "UDFLogicalVolumeDescriptor option \<Rightarrow> error + int" where
  "UDFLogicalVolumeDescriptor_extent_location self =
     (case self of
        None \<Rightarrow> Inl (PyCdlibInternalError ''UDF Logical Volume Descriptor not initialized'')
      | Some d \<Rightarrow> current_extent d)"

definition UDFLogicalVolumeDescriptor_set_location ::
  "UDFLogicalVolumeDescriptor option \<Rightarrow> int \<Rightarrow> error + UDFLogicalVolumeDescriptor" where
  "UDFLogicalVolumeDescriptor_set_location self new_location =
     (case self of
        None \<Rightarrow> Inl (PyCdlibInternalError ''UDF Logical Volume Descriptor not initialized'')
      | Some d \<Rightarrow>
          Inr (d\<lparr>new_extent_loc := PyInt new_location,
                 desc_tag := (desc_tag d)\<lparr>tag_location := new_location\<rparr>\<rparr>))"

definition UDFLogicalVolumeDescriptor_set_integrity_location ::
  "UDFLogicalVolumeDescriptor option \<Rightarrow> int \<Rightarrow> error + UDFLogicalVolumeDescriptor" where
  "UDFLogicalVolumeDescriptor_set_integrity_location self integrity_extent =
     (case self of
        None \<Rightarrow> Inl (PyCdlibInternalError ''UDF Logical Volume Descriptor not initialized'')
      | Some d \<Rightarrow> Inr (d\<lparr>lvd_integrity_sequence_extent := integrity_extent\<rparr>))"

section \<open>UDFUnallocatedSpaceDescriptor\<close>

record UDFUnallocatedSpaceDescriptor = tagged +
  usd_vol_desc_seqnum :: int

definition UDFUnallocatedSpaceDescriptor_FMT :: "fmt list" where
  "UDFUnallocatedSpaceDescriptor_FMT = [Fmt_s 16, Fmt_L, Fmt_L]"

definition UDFUnallocatedSpaceDescriptor_parse ::
  "UDFUnallocatedSpaceDescriptor option \<Rightarrow> bytes \<Rightarrow> int \<Rightarrow>
     error + UDFUnallocatedSpaceDescriptor" where
  "UDFUnallocatedSpaceDescriptor_parse self data extent =
     (if self \<noteq> None then
        Inl (PyCdlibInternalError ''UDF Unallocated Space Descriptor already initialized'')
      else case unpack_from UDFUnallocatedSpaceDescriptor_FMT data of
        Inl e \<Rightarrow> Inl e
      | Inr [PBytes desc_tag', PInt vol_desc_seqnum, PInt num_alloc_descriptors] \<Rightarrow>
          (case UDFTag_parse None desc_tag' extent (drop 16 data) of
             Inl e \<Rightarrow> Inl e
           | Inr tag \<Rightarrow>
               if tag_ident tag \<noteq> 7 then
                 Inl (PyCdlibInvalidISO ''Unallocated Space Tag identifier not 7'')
               else if num_alloc_descriptors \<noteq> 0 then
                 Inl (PyCdlibInvalidISO
                   ''UDF Unallocated Space Descriptor allocated descriptors is not 0'')
               else Inr \<lparr>orig_extent_loc = Some extent, new_extent_loc = PyNone,
                         desc_tag = tag, usd_vol_desc_seqnum = vol_desc_seqnum\<rparr>)
      | Inr _ \<Rightarrow> Inl StructError)"

definition UDFUnallocatedSpaceDescriptor_record ::
  "UDFUnallocatedSpaceDescriptor option \<Rightarrow> error + bytes" where
  "UDFUnallocatedSpaceDescriptor_record self =
     (case self of
        None \<Rightarrow> Inl (PyCdlibInternalError ''UDF Unallocated Space Descriptor not initialized'')
      | Some d \<Rightarrow>
         (case pack UDFUnallocatedSpaceDescriptor_FMT
                 [PBytes (zeros 16), PInt (usd_vol_desc_seqnum d), PInt 0] of
            Inl e \<Rightarrow> Inl e
          | Inr packed \<Rightarrow>
             (let rec = drop 16 packed in
              case UDFTag_record (Some (desc_tag d)) rec of
                Inl e \<Rightarrow> Inl e
              | Inr t \<Rightarrow> Inr (t @ rec))))"

definition UDFUnallocatedSpaceDescriptor_extent_location ::
  "UDFUnallocatedSpaceDescriptor option \<Rightarrow> error + int" where
  "UDFUnallocatedSpaceDescriptor_extent_location self =
     (case self of
        None \<Rightarrow> Inl (PyCdlibInternalError ''UDF Unallocated Space Descriptor not initialized'')
      | Some d \<Rightarrow> current_extent d)"

definition UDFUnallocatedSpaceDescriptor_set_location ::
  "UDFUnallocatedSpaceDescriptor option \<Rightarrow> int \<Rightarrow> error + UDFUnallocatedSpaceDescriptor" where
  "UDFUnallocatedSpaceDescriptor_set_location self new_location =
     (case self of
        None \<Rightarrow> Inl (PyCdlibInternalError ''UDF Unallocated Space Descriptor not initialized'')
      | Some d \<Rightarrow>
          Inr (d\<lparr>new_extent_loc := PyInt new_location,
                 desc_tag := (desc_tag d)\<lparr>tag_location := new_location\<rparr>\<rparr>))"

section \<open>UDFTerminatingDescriptor\<close>

type_synonym UDFTerminatingDescriptor = tagged

definition UDFTerminatingDescriptor_FMT :: "fmt list" where
  "UDFTerminatingDescriptor_FMT = [Fmt_s 16, Fmt_s 496]"

definition UDFTerminatingDescriptor_parse ::
  "UDFTerminatingDescriptor option \<Rightarrow> bytes \<Rightarrow> int \<Rightarrow> int \<Rightarrow>
     error + UDFTerminatingDescriptor" where
  "UDFTerminatingDescriptor_parse self data extent start_extent =
     (if self \<noteq> None then
        Inl (PyCdlibInternalError ''UDF Terminating Descriptor already initialized'')
      else case unpack_from UDFTerminatingDescriptor_FMT data of
        Inl e \<Rightarrow> Inl e
      | Inr [PBytes desc_tag', PBytes reserved_unused] \<Rightarrow>
          (case UDFTag_parse None desc_tag' (extent - start_extent) (drop 16 data) of
             Inl e \<Rightarrow> Inl e
           | Inr tag \<Rightarrow>
               if tag_ident tag \<noteq> 8 then
                 Inl (PyCdlibInvalidISO ''Terminating Tag identifier not 8'')
               else Inr \<lparr>orig_extent_loc = Some extent, new_extent_loc = PyNone,
                         desc_tag = tag\<rparr>)
      | Inr _ \<Rightarrow> Inl StructError)"

definition UDFTerminatingDescriptor_record ::
  "UDFTerminatingDescriptor option \<Rightarrow> error + bytes" where
  "UDFTerminatingDescriptor_record self =
     (case self of
        None \<Rightarrow> Inl (PyCdlibInternalError ''UDF Terminating Descriptor not initialized'')
      | Some d \<Rightarrow>
         (case pack UDFTerminatingDescriptor_FMT [PBytes (zeros 16), PBytes (zeros 496)] of
            Inl e \<Rightarrow> Inl e
          | Inr packed \<Rightarrow>
             (let rec = drop 16 packed in
              case UDFTag_record (Some (desc_tag d)) rec of
                Inl e \<Rightarrow> Inl e
              | Inr t \<Rightarrow> Inr (t @ rec))))"

definition UDFTerminatingDescriptor_extent_location ::
  "UDFTerminatingDescriptor option \<Rightarrow> error + int" where
  "UDFTerminatingDescriptor_extent_location self =
     (case self of
        None \<Rightarrow> Inl (PyCdlibInternalError ''UDF Terminating Descriptor not initialized'')
      | Some d \<Rightarrow> current_extent d)"

text \<open>\<open>set_location(new_location, tag_location=None)\<close>: the second argument is optional.\<close>

definition UDFTerminatingDescriptor_set_location ::
  "UDFTerminatingDescriptor option \<Rightarrow> int \<Rightarrow> int option \<Rightarrow> error + UDFTerminatingDescriptor" where
  "UDFTerminatingDescriptor_set_location self new_location tag_location' =
     (case self of
        None \<Rightarrow> Inl (PyCdlibInternalError ''UDF Terminating Descriptor not initialized'')
      | Some d \<Rightarrow>
         (let tl = (case tag_location' of None \<Rightarrow> new_location | Some l \<Rightarrow> l)
          in Inr (d\<lparr>new_extent_loc := PyInt new_location,
                    desc_tag := (desc_tag d)\<lparr>tag_location := tl\<rparr>\<rparr>)))"

section \<open>UDFLogicalVolumeHeaderDescriptor and UDFLogicalVolumeImplementationUse\<close>

record UDFLogicalVolumeHeaderDescriptor =
  lvhd_unique_id :: int

definition UDFLogicalVolumeHeaderDescriptor_FMT :: "fmt list" where
  "UDFLogicalVolumeHeaderDescriptor_FMT = [Fmt_Q, Fmt_s 24]"

definition UDFLogicalVolumeHeaderDescriptor_parse ::
  "UDFLogicalVolumeHeaderDescriptor option \<Rightarrow> bytes \<Rightarrow>
     error + UDFLogicalVolumeHeaderDescriptor" where
  "UDFLogicalVolumeHeaderDescriptor_parse self data =
     (if self \<noteq> None then
        Inl (PyCdlibInternalError ''UDF Logical Volume Header Descriptor already initialized'')
      else case unpack_from UDFLogicalVolumeHeaderDescriptor_FMT data of
        Inl e \<Rightarrow> Inl e
      | Inr [PInt unique_id, PBytes reserved_unused] \<Rightarrow> Inr \<lparr>lvhd_unique_id = unique_id\<rparr>
      | Inr _ \<Rightarrow> Inl StructError)"

definition UDFLogicalVolumeHeaderDescriptor_record ::
  "UDFLogicalVolumeHeaderDescriptor option \<Rightarrow> error + bytes" where
  "UDFLogicalVolumeHeaderDescriptor_record self =
     (case self of
        None \<Rightarrow>
          Inl (PyCdlibInternalError ''UDF Logical Volume Header Descriptor not initialized'')
      | Some d \<Rightarrow>
          pack UDFLogicalVolumeHeaderDescriptor_FMT [PInt (lvhd_unique_id d), PBytes (zeros 24)])"

definition UDFLogicalVolumeHeaderDescriptor_new ::
  "UDFLogicalVolumeHeaderDescriptor option \<Rightarrow> error + UDFLogicalVolumeHeaderDescriptor" where
  "UDFLogicalVolumeHeaderDescriptor_new self =
     (if self \<noteq> None then
        Inl (PyCdlibInternalError ''UDF Logical Volume Header Descriptor already initialized'')
      else Inr \<lparr>lvhd_unique_id = 261\<rparr>)"

record UDFLogicalVolumeImplementationUse =
  lviu_num_files :: int
  lviu_num_dirs :: int
  lviu_min_udf_read_revision :: int
  lviu_min_udf_write_revision :: int
  lviu_max_udf_write_revision :: int
  lviu_impl_id :: UDFEntityID
  lviu_impl_use :: bytes

definition UDFLogicalVolumeImplementationUse_FMT :: "fmt list" where
  "UDFLogicalVolumeImplementationUse_FMT = [Fmt_s 32, Fmt_L, Fmt_L, Fmt_H, Fmt_H, Fmt_H]"

definition UDFLogicalVolumeImplementationUse_parse ::
  "UDFLogicalVolumeImplementationUse option \<Rightarrow> bytes \<Rightarrow>
     error + UDFLogicalVolumeImplementationUse" where
  "UDFLogicalVolumeImplementationUse_parse self data =
     (if self \<noteq> None then
        Inl (PyCdlibInternalError ''UDF Logical Volume Implementation Use already initialized'')
      else case unpack_from UDFLogicalVolumeImplementationUse_FMT data of
        Inl e \<Rightarrow> Inl e
      | Inr [PBytes impl_id, PInt num_files, PInt num_dirs, PInt min_udf_read_revision,
             PInt min_udf_write_revision, PInt max_udf_write_revision] \<Rightarrow>
          (case UDFEntityID_parse None impl_id of
             Inl e \<Rightarrow> Inl e
           | Inr ident \<Rightarrow>
               Inr \<lparr>lviu_num_files = num_files, lviu_num_dirs = num_dirs,
                    lviu_min_udf_read_revision = min_udf_read_revision,
                    lviu_min_udf_write_revision = min_udf_write_revision,
                    lviu_max_udf_write_revision = max_udf_write_revision,
                    lviu_impl_id = ident, lviu_impl_use = drop 46 data\<rparr>)
      | Inr _ \<Rightarrow> Inl StructError)"

definition UDFLogicalVolumeImplementationUse_record ::
  "UDFLogicalVolumeImplementationUse option \<Rightarrow> error + bytes" where
  "UDFLogicalVolumeImplementationUse_record self =
     (case self of
        None \<Rightarrow>
          Inl (PyCdlibInternalError ''UDF Logical Volume Implementation Use not initialized'')
      | Some d \<Rightarrow>
         (case UDFEntityID_record (Some (lviu_impl_id d)) of
            Inl e \<Rightarrow> Inl e
          | Inr ident \<Rightarrow>
             (case pack UDFLogicalVolumeImplementationUse_FMT
                     [PBytes ident, PInt (lviu_num_files d), PInt (lviu_num_dirs d),
                      PInt (lviu_min_udf_read_revision d), PInt (lviu_min_udf_write_revision d),
                      PInt (lviu_max_udf_write_revision d)] of
                Inl e \<Rightarrow> Inl e
              | Inr packed \<Rightarrow> Inr (packed @ lviu_impl_use d))))"

section \<open>UDFLogicalVolumeIntegrityDescriptor\<close>

record UDFLogicalVolumeIntegrityDescriptor = tagged +
  lvid_length_impl_use :: int
  lvid_free_space_table :: int
  lvid_size_table :: int
  lvid_recording_date :: UDFTimestamp
  lvid_logical_volume_contents_use :: UDFLogicalVolumeHeaderDescriptor
  lvid_logical_volume_impl_use :: UDFLogicalVolumeImplementationUse

definition UDFLogicalVolumeIntegrityDescriptor_FMT :: "fmt list" where
  "UDFLogicalVolumeIntegrityDescriptor_FMT =
     [Fmt_s 16, Fmt_s 12, Fmt_L, Fmt_L, Fmt_L, Fmt_s 32, Fmt_L, Fmt_L, Fmt_L, Fmt_L, Fmt_s 424]"

definition UDFLogicalVolumeIntegrityDescriptor_parse ::
  "UDFLogicalVolumeIntegrityDescriptor option \<Rightarrow> bytes \<Rightarrow> int \<Rightarrow>
     error + UDFLogicalVolumeIntegrityDescriptor" where
  "UDFLogicalVolumeIntegrityDescriptor_parse self data extent =
     (if self \<noteq> None then
        Inl (PyCdlibInternalError
          ''UDF Logical Volume Integrity Descriptor already initialized'')
      else case unpack_from UDFLogicalVolumeIntegrityDescriptor_FMT data of
        Inl e \<Rightarrow> Inl e
      | Inr [PBytes desc_tag', PBytes recording_date, PInt integrity_type,
             PInt next_integrity_extent_length, PInt next_integrity_extent_extent,
             PBytes logical_volume_contents_use, PInt num_partitions, PInt length_impl_use,
             PInt free_space_table, PInt size_table, PBytes impl_use] \<Rightarrow>
          (case UDFTag_parse None desc_tag' extent (take 118 (drop 16 data)) of
             Inl e \<Rightarrow> Inl e
           | Inr tag \<Rightarrow>
               if tag_ident tag \<noteq> 9 then
                 Inl (PyCdlibInvalidISO ''Logical Volume Integrity Tag identifier not 9'')
               else (case UDFTimestamp_parse None recording_date of
                 Inl e \<Rightarrow> Inl e
               | Inr date \<Rightarrow>
                   if integrity_type \<noteq> 1 then
                     Inl (PyCdlibInvalidISO ''Logical Volume Integrity Type not 1'')
                   else if next_integrity_extent_length \<noteq> 0 then
                     Inl (PyCdlibInvalidISO ''Logical Volume Integrity Extent length not 1'')
                   else if next_integrity_extent_extent \<noteq> 0 then
                     Inl (PyCdlibInvalidISO ''Logical Volume Integrity Extent extent not 1'')
                   else if num_partitions \<noteq> 1 then
                     Inl (PyCdlibInvalidISO
                       ''Logical Volume Integrity number partitions not 1'')
                   else if length_impl_use > 424 then
                     Inl (PyCdlibInvalidISO
                       ''Logical Volume Integrity implementation use length too large'')
                   else if free_space_table \<noteq> 0 then
                     Inl (PyCdlibInvalidISO ''Logical Volume Integrity free space table not 0'')
                   else (case UDFLogicalVolumeHeaderDescriptor_parse None
                                logical_volume_contents_use of
                     Inl e \<Rightarrow> Inl e
                   | Inr header \<Rightarrow>
                      (case UDFLogicalVolumeImplementationUse_parse None impl_use of
                         Inl e \<Rightarrow> Inl e
                       | Inr use \<Rightarrow>
                           Inr \<lparr>orig_extent_loc = Some extent, new_extent_loc = PyNone,
                                desc_tag = tag, lvid_length_impl_use = length_impl_use,
                                lvid_free_space_table = free_space_table,
                                lvid_size_table = size_table, lvid_recording_date = date,
                                lvid_logical_volume_contents_use = header,
                                lvid_logical_volume_impl_use = use\<rparr>))))
      | Inr _ \<Rightarrow> Inl StructError)"

definition UDFLogicalVolumeIntegrityDescriptor_record ::
  "UDFLogicalVolumeIntegrityDescriptor option \<Rightarrow> error + bytes" where
  "UDFLogicalVolumeIntegrityDescriptor_record self =
     (case self of
        None \<Rightarrow>
          Inl (PyCdlibInternalError ''UDF Logical Volume Integrity Descriptor not initialized'')
      | Some d \<Rightarrow>
         (case UDFTimestamp_record (Some (lvid_recording_date d)) of
            Inl e \<Rightarrow> Inl e
          | Inr date \<Rightarrow>
         (case UDFLogicalVolumeHeaderDescriptor_record
                 (Some (lvid_logical_volume_contents_use d)) of
            Inl e \<Rightarrow> Inl e
          | Inr header \<Rightarrow>
         (case UDFLogicalVolumeImplementationUse_record
                 (Some (lvid_logical_volume_impl_use d)) of
            Inl e \<Rightarrow> Inl e
          | Inr use \<Rightarrow>
         (case pack UDFLogicalVolumeIntegrityDescriptor_FMT
                 [PBytes (zeros 16), PBytes date, PInt 1, PInt 0, PInt 0, PBytes header, PInt 1,
                  PInt (lvid_length_impl_use d), PInt (lvid_free_space_table d),
                  PInt (lvid_size_table d), PBytes use] of
            Inl e \<Rightarrow> Inl e
          | Inr packed \<Rightarrow>
             (let rec = drop 16 packed in
              case UDFTag_record (Some (desc_tag d)) (take 118 rec) of
                Inl e \<Rightarrow> Inl e
              | Inr t \<Rightarrow> Inr (t @ rec)))))))"

definition UDFLogicalVolumeIntegrityDescriptor_extent_location ::
  "UDFLogicalVolumeIntegrityDescriptor option \<Rightarrow> error + int" where
  "UDFLogicalVolumeIntegrityDescriptor_extent_location self =
     (case self of
        None \<Rightarrow>
          Inl (PyCdlibInternalError ''UDF Logical Volume Integrity Descriptor not initialized'')
      | Some d \<Rightarrow> current_extent d)"

definition UDFLogicalVolumeIntegrityDescriptor_set_location ::
  "UDFLogicalVolumeIntegrityDescriptor option \<Rightarrow> int \<Rightarrow>
     error + UDFLogicalVolumeIntegrityDescriptor" where
  "UDFLogicalVolumeIntegrityDescriptor_set_location self new_location =
     (case self of
        None \<Rightarrow>
          Inl (PyCdlibInternalError ''UDF Logical Volume Integrity Descriptor not initialized'')
      | Some d \<Rightarrow>
          Inr (d\<lparr>new_extent_loc := PyInt new_location,
                 desc_tag := (desc_tag d)\<lparr>tag_location := new_location\<rparr>\<rparr>))"

section \<open>UDFFileSetDescriptor\<close>

record UDFFileSetDescriptor = tagged +
  fsd_log_vol_charset :: bytes
  fsd_log_vol_ident :: bytes
  fsd_file_set_charset :: bytes
  fsd_file_set_ident :: bytes
  fsd_copyright_file_ident :: bytes
  fsd_abstract_file_ident :: bytes
  fsd_recording_date :: UDFTimestamp
  fsd_domain_ident :: UDFEntityID
  fsd_root_dir_icb :: UDFLongAD

definition UDFFileSetDescriptor_FMT :: "fmt list" where
  "UDFFileSetDescriptor_FMT =
     [Fmt_s 16, Fmt_s 12, Fmt_H, Fmt_H, Fmt_L, Fmt_L, Fmt_L, Fmt_L, Fmt_s 64, Fmt_s 128,
      Fmt_s 64, Fmt_s 32, Fmt_s 32, Fmt_s 32, Fmt_s 16, Fmt_s 32, Fmt_s 16, Fmt_s 48]"

definition UDFFileSetDescriptor_parse ::
  "UDFFileSetDescriptor option \<Rightarrow> bytes \<Rightarrow> int \<Rightarrow> int \<Rightarrow> error + UDFFileSetDescriptor" where
  "UDFFileSetDescriptor_parse self data extent start_extent =
     (if self \<noteq> None then
        Inl (PyCdlibInternalError ''UDF File Set Descriptor already initialized'')
      else case unpack_from UDFFileSetDescriptor_FMT data of
        Inl e \<Rightarrow> Inl e
      | Inr [PBytes desc_tag', PBytes recording_date, PInt interchange_level,
             PInt max_interchange_level, PInt charset_list, PInt max_charset_list,
             PInt file_set_num, PInt file_set_desc_num, PBytes log_vol_charset,
             PBytes log_vol_ident, PBytes file_set_charset, PBytes file_set_ident,
             PBytes copyright_file_ident, PBytes abstract_file_ident, PBytes root_dir_icb,
             PBytes domain_ident, PBytes next_extent, PBytes reserved_unused] \<Rightarrow>
          (case UDFTag_parse None desc_tag' (extent - start_extent) (drop 16 data) of
             Inl e \<Rightarrow> Inl e
           | Inr tag \<Rightarrow>
               if tag_ident tag \<noteq> 256 then
                 Inl (PyCdlibInvalidISO ''File Set Descriptor Tag identifier not 9'')
               else (case UDFTimestamp_parse None recording_date of
                 Inl e \<Rightarrow> Inl e
               | Inr date \<Rightarrow>
                   if interchange_level \<noteq> 3 then
                     Inl (PyCdlibInvalidISO ''Only DVD Read-Only disks are supported'')
                   else if max_interchange_level \<noteq> 3 then
                     Inl (PyCdlibInvalidISO ''Only DVD Read-Only disks are supported'')
                   else if charset_list \<noteq> 1 then
                     Inl (PyCdlibInvalidISO ''Only DVD Read-Only disks are supported'')
                   else if max_charset_list \<noteq> 1 then
                     Inl (PyCdlibInvalidISO ''Only DVD Read-Only disks are supported'')
                   else if file_set_num \<noteq> 0 then
                     Inl (PyCdlibInvalidISO ''Only DVD Read-Only disks are supported'')
                   else if file_set_desc_num \<noteq> 0 then
                     Inl (PyCdlibInvalidISO ''Only DVD Read-Only disks are supported'')
                   else (case UDFEntityID_parse None domain_ident of
                     Inl e \<Rightarrow> Inl e
                   | Inr domain \<Rightarrow>
                       if take 19 (eid_identifier domain) \<noteq> ascii ''*OSTA UDF Compliant'' then
                         Inl (PyCdlibInvalidISO
                           ''File Set Descriptor Identifier not *OSTA UDF Compliant'')
                       else (case UDFLongAD_parse None root_dir_icb of
                         Inl e \<Rightarrow> Inl e
                       | Inr icb \<Rightarrow>
                           if next_extent \<noteq> zeros 16 then
                             Inl (PyCdlibInvalidISO ''Only DVD Read-Only disks are supported'')
                           else
                             Inr \<lparr>orig_extent_loc = Some extent, new_extent_loc = PyNone,
                                  desc_tag = tag, fsd_log_vol_charset = log_vol_charset,
                                  fsd_log_vol_ident = log_vol_ident,
                                  fsd_file_set_charset = file_set_charset,
                                  fsd_file_set_ident = file_set_ident,
                                  fsd_copyright_file_ident = copyright_file_ident,
                                  fsd_abstract_file_ident = abstract_file_ident,
                                  fsd_recording_date = date, fsd_domain_ident = domain,
                                  fsd_root_dir_icb = icb\<rparr>))))
      | Inr _ \<Rightarrow> Inl StructError)"

definition UDFFileSetDescriptor_record :: "UDFFileSetDescriptor option \<Rightarrow> error + bytes" where
  "UDFFileSetDescriptor_record self =
     (case self of
        None \<Rightarrow> Inl (PyCdlibInternalError ''UDF File Set Descriptor not initialized'')
      | Some d \<Rightarrow>
         (case UDFTimestamp_record (Some (fsd_recording_date d)) of
            Inl e \<Rightarrow> Inl e
          | Inr date \<Rightarrow>
         (case UDFLongAD_record (Some (fsd_root_dir_icb d)) of
            Inl e \<Rightarrow> Inl e
          | Inr icb \<Rightarrow>
         (case UDFEntityID_record (Some (fsd_domain_ident d)) of
            Inl e \<Rightarrow> Inl e
          | Inr domain \<Rightarrow>
         (case pack UDFFileSetDescriptor_FMT
                 [PBytes (zeros 16), PBytes date, PInt 3, PInt 3, PInt 1, PInt 1, PInt 0, PInt 0,
                  PBytes (fsd_log_vol_charset d), PBytes (fsd_log_vol_ident d),
                  PBytes (fsd_file_set_charset d), PBytes (fsd_file_set_ident d),
                  PBytes (fsd_copyright_file_ident d), PBytes (fsd_abstract_file_ident d),
                  PBytes icb, PBytes domain, PBytes (zeros 16), PBytes (zeros 48)] of
            Inl e \<Rightarrow> Inl e
          | Inr packed \<Rightarrow>
             (let rec = drop 16 packed in
              case UDFTag_record (Some (desc_tag d)) rec of
                Inl e \<Rightarrow> Inl e
              | Inr t \<Rightarrow> Inr (t @ rec)))))))"

definition UDFFileSetDescriptor_extent_location :: "UDFFileSetDescriptor option \<Rightarrow> error + int" where
  "UDFFileSetDescriptor_extent_location self =
     (case self of
        None \<Rightarrow> Inl (PyCdlibInternalError ''UDF File Set Descriptor not initialized'')
      | Some d \<Rightarrow> current_extent d)"

section \<open>UDFICBTag\<close>

record UDFICBTag =
  icb_prior_num_direct_entries :: int
  icb_strategy_type :: int
  icb_strategy_param :: int
  icb_max_num_entries :: int
  icb_file_type :: int
  icb_parent_icb_log_block_num :: int
  icb_parent_icb_part_ref_num :: int
  icb_flags :: int

definition UDFICBTag_FMT :: "fmt list" where
  "UDFICBTag_FMT = [Fmt_L, Fmt_H, Fmt_H, Fmt_H, Fmt_B, Fmt_B, Fmt_L, Fmt_H, Fmt_H]"

definition UDFICBTag_parse :: "UDFICBTag option \<Rightarrow> bytes \<Rightarrow> error + UDFICBTag" where
  "UDFICBTag_parse self data =
     (if self \<noteq> None then Inl (PyCdlibInternalError ''UDF ICB Tag already initialized'')
      else case unpack_from UDFICBTag_FMT data of
        Inl e \<Rightarrow> Inl e
      | Inr [PInt prior_num_direct_entries, PInt strategy_type, PInt strategy_param,
             PInt max_num_entries, PInt reserved, PInt file_type,
             PInt parent_icb_log_block_num, PInt parent_icb_part_ref_num, PInt flags] \<Rightarrow>
          if strategy_type \<notin> {4, 4096} then
            Inl (PyCdlibInvalidISO ''UDF ICB Tag invalid strategy type'')
          else if reserved \<noteq> 0 then Inl (PyCdlibInvalidISO ''UDF ICB Tag reserved not 0'')
          else Inr \<lparr>icb_prior_num_direct_entries = prior_num_direct_entries,
                    icb_strategy_type = strategy_type, icb_strategy_param = strategy_param,
                    icb_max_num_entries = max_num_entries, icb_file_type = file_type,
                    icb_parent_icb_log_block_num = parent_icb_log_block_num,
                    icb_parent_icb_part_ref_num = parent_icb_part_ref_num, icb_flags = flags\<rparr>
      | Inr _ \<Rightarrow> Inl StructError)"

definition UDFICBTag_record :: "UDFICBTag option \<Rightarrow> error + bytes" where
  "UDFICBTag_record self =
     (case self of
        None \<Rightarrow> Inl (PyCdlibInternalError ''UDF ICB Tag not initialized'')
      | Some d \<Rightarrow>
          pack UDFICBTag_FMT
            [PInt (icb_prior_num_direct_entries d), PInt (icb_strategy_type d),
             PInt (icb_strategy_param d), PInt (icb_max_num_entries d), PInt 0,
             PInt (icb_file_type d), PInt (icb_parent_icb_log_block_num d),
             PInt (icb_parent_icb_part_ref_num d), PInt (icb_flags d)])"

definition UDFICBTag_new :: "UDFICBTag option \<Rightarrow> error + UDFICBTag" where
  "UDFICBTag_new self =
     (if self \<noteq> None then Inl (PyCdlibInternalError ''UDF ICB Tag already initialized'')
      else Inr \<lparr>icb_prior_num_direct_entries = 0, icb_strategy_type = 4, icb_strategy_param = 0,
                icb_max_num_entries = 1, icb_file_type = 4, icb_parent_icb_log_block_num = 0,
                icb_parent_icb_part_ref_num = 0, icb_flags = 560\<rparr>)"

section \<open>UDFFileEntry\<close>

text \<open>
  \<open>alloc_descs\<close> is the list that \<open>__init__\<close> creates empty and \<open>parse\<close> appends to; an
  object that is \<open>None\<close> here is one fresh from \<open>__init__\<close>.  The attribute \<open>descs\<close> is
  created empty and never used by the module.
\<close>

record UDFFileEntry = tagged +
  fe_uid :: int
  fe_gid :: int
  fe_perms :: int
  fe_file_link_count :: int
  fe_info_len :: int
  fe_log_block_recorded :: int
  fe_unique_id :: int
  fe_len_extended_attrs :: int
  fe_len_alloc_descs :: int
  fe_icb_tag :: UDFICBTag
  fe_alloc_descs :: "(int \<times> int) list"
  fe_access_time :: UDFTimestamp
  fe_mod_time :: UDFTimestamp
  fe_attr_time :: UDFTimestamp
  fe_extended_attr_icb :: UDFLongAD
  fe_impl_ident :: UDFEntityID
  fe_extended_attrs :: bytes

definition UDFFileEntry_FMT :: "fmt list" where
  "UDFFileEntry_FMT =
     [Fmt_s 16, Fmt_s 20, Fmt_L, Fmt_L, Fmt_L, Fmt_H, Fmt_B, Fmt_B, Fmt_L, Fmt_Q, Fmt_Q,
      Fmt_s 12, Fmt_s 12, Fmt_s 12, Fmt_L, Fmt_s 16, Fmt_s 32, Fmt_Q, Fmt_L, Fmt_L]"

text \<open>
  The loop of \<open>parse\<close> over \<open>range(0, num_alloc_descs)\<close>: each round unpacks
  \<open>data[offset:offset + 8]\<close> with \<open>struct.unpack("=LL", ...)\<close>, which raises when the
  slice is shorter than eight bytes, appends the pair and advances the offset by 8.
\<close>

fun UDFFileEntry_parse_alloc_descs :: "nat \<Rightarrow> bytes \<Rightarrow> nat \<Rightarrow> error + (int \<times> int) list" where
  "UDFFileEntry_parse_alloc_descs 0 data offset = Inr []"
| "UDFFileEntry_parse_alloc_descs (Suc n) data offset =
     (case unpack [Fmt_L, Fmt_L] (take 8 (drop offset data)) of
        Inl e \<Rightarrow> Inl e
      | Inr [PInt length', PInt pos] \<Rightarrow>
         (case UDFFileEntry_parse_alloc_descs n data (offset + 8) of
            Inl e \<Rightarrow> Inl e
          | Inr rest \<Rightarrow> Inr ((length', pos) # rest))
      | Inr _ \<Rightarrow> Inl StructError)"

text \<open>
  \<open>num_alloc_descs = self.len_alloc_descs / 8\<close> is Python 2 integer division, which
  rounds down; no remainder is looked at.
\<close>

definition UDFFileEntry_parse ::
  "UDFFileEntry option \<Rightarrow> bytes \<Rightarrow> int \<Rightarrow> int \<Rightarrow> error + UDFFileEntry" where
  "UDFFileEntry_parse self data extent start_extent =
     (if self \<noteq> None then Inl (PyCdlibInternalError ''UDF File Entry already initialized'')
      else case unpack_from UDFFileEntry_FMT data of
        Inl e \<Rightarrow> Inl e
      | Inr [PBytes desc_tag', PBytes icb_tag, PInt uid, PInt gid, PInt perms,
             PInt file_link_count, PInt record_format, PInt record_display_attrs,
             PInt record_len, PInt info_len, PInt log_block_recorded, PBytes access_time,
             PBytes mod_time, PBytes attr_time, PInt checkpoint, PBytes extended_attr_icb,
             PBytes impl_ident, PInt unique_id, PInt len_extended_attrs,
             PInt len_alloc_descs] \<Rightarrow>
          (case UDFTag_parse None desc_tag' (extent - start_extent) (take 168 (drop 16 data)) of
             Inl e \<Rightarrow> Inl e
           | Inr tag \<Rightarrow>
               if tag_ident tag \<noteq> 261 then
                 Inl (PyCdlibInvalidISO ''File Entry Descriptor Tag identifier not 9'')
               else (case UDFICBTag_parse None icb_tag of
                 Inl e \<Rightarrow> Inl e
               | Inr icb \<Rightarrow>
                   if record_format \<noteq> 0 then
                     Inl (PyCdlibInvalidISO ''File Entry record format is not 0'')
                   else if record_display_attrs \<noteq> 0 then
                     Inl (PyCdlibInvalidISO ''File Entry record display attributes is not 0'')
                   else if record_len \<noteq> 0 then
                     Inl (PyCdlibInvalidISO ''File Entry record length is not 0'')
                   else (case UDFTimestamp_parse None access_time of
                     Inl e \<Rightarrow> Inl e
                   | Inr atime \<Rightarrow>
                  (case UDFTimestamp_parse None mod_time of
                     Inl e \<Rightarrow> Inl e
                   | Inr mtime \<Rightarrow>
                  (case UDFTimestamp_parse None attr_time of
                     Inl e \<Rightarrow> Inl e
                   | Inr attrtime \<Rightarrow>
                       if checkpoint \<noteq> 1 then
                         Inl (PyCdlibInvalidISO ''Only DVD Read-only disks supported'')
                       else (case UDFLongAD_parse None extended_attr_icb of
                         Inl e \<Rightarrow> Inl e
                       | Inr eaicb \<Rightarrow>
                      (case UDFEntityID_parse None impl_ident of
                         Inl e \<Rightarrow> Inl e
                       | Inr impl \<Rightarrow>
                         (let offset = calcsize UDFFileEntry_FMT;
                              extended_attrs = take (nat len_extended_attrs) (drop offset data);
                              offset = offset + nat len_extended_attrs;
                              num_alloc_descs = len_alloc_descs div 8
                          in case UDFFileEntry_parse_alloc_descs (nat num_alloc_descs) data offset of
                               Inl e \<Rightarrow> Inl e
                             | Inr descs \<Rightarrow>
                                 Inr \<lparr>orig_extent_loc = Some extent, new_extent_loc = PyNone,
                                      desc_tag = tag, fe_uid = uid, fe_gid = gid,
                                      fe_perms = perms, fe_file_link_count = file_link_count,
                                      fe_info_len = info_len,
                                      fe_log_block_recorded = log_block_recorded,
                                      fe_unique_id = unique_id,
                                      fe_len_extended_attrs = len_extended_attrs,
                                      fe_len_alloc_descs = len_alloc_descs,
                                      fe_icb_tag = icb, fe_alloc_descs = descs,
                                      fe_access_time = atime, fe_mod_time = mtime,
                                      fe_attr_time = attrtime, fe_extended_attr_icb = eaicb,
                                      fe_impl_ident = impl,
                                      fe_extended_attrs = extended_attrs\<rparr>))))))))
      | Inr _ \<Rightarrow> Inl StructError)"

text \<open>The loop of \<open>record\<close> that appends \<open>struct.pack("=LL", length, pos)\<close> for every pair.\<close>

fun UDFFileEntry_record_alloc_descs :: "(int \<times> int) list \<Rightarrow> error + bytes" where
  "UDFFileEntry_record_alloc_descs [] = Inr []"
| "UDFFileEntry_record_alloc_descs ((length', pos) # rest) =
     (case pack [Fmt_L, Fmt_L] [PInt length', PInt pos] of
        Inl e \<Rightarrow> Inl e
      | Inr b \<Rightarrow>
         (case UDFFileEntry_record_alloc_descs rest of
            Inl e \<Rightarrow> Inl e
          | Inr bs \<Rightarrow> Inr (b @ bs)))"

definition UDFFileEntry_record :: "UDFFileEntry option \<Rightarrow> error + bytes" where
  "UDFFileEntry_record self =
     (case self of
        None \<Rightarrow> Inl (PyCdlibInternalError ''UDF File Entry not initialized'')
      | Some d \<Rightarrow>
         (case UDFICBTag_record (Some (fe_icb_tag d)) of
            Inl e \<Rightarrow> Inl e
          | Inr icb \<Rightarrow>
         (case UDFTimestamp_record (Some (fe_access_time d)) of
            Inl e \<Rightarrow> Inl e
          | Inr atime \<Rightarrow>
         (case UDFTimestamp_record (Some (fe_mod_time d)) of
            Inl e \<Rightarrow> Inl e
          | Inr mtime \<Rightarrow>
         (case UDFTimestamp_record (Some (fe_attr_time d)) of
            Inl e \<Rightarrow> Inl e
          | Inr attrtime \<Rightarrow>
         (case UDFLongAD_record (Some (fe_extended_attr_icb d)) of
            Inl e \<Rightarrow> Inl e
          | Inr eaicb \<Rightarrow>
         (case UDFEntityID_record (Some (fe_impl_ident d)) of
            Inl e \<Rightarrow> Inl e
          | Inr impl \<Rightarrow>
         (case pack UDFFileEntry_FMT
                 [PBytes (zeros 16), PBytes icb, PInt (fe_uid d), PInt (fe_gid d),
                  PInt (fe_perms d), PInt (fe_file_link_count d), PInt 0, PInt 0, PInt 0,
                  PInt (fe_info_len d), PInt (fe_log_block_recorded d), PBytes atime,
                  PBytes mtime, PBytes attrtime, PInt 1, PBytes eaicb, PBytes impl,
                  PInt (fe_unique_id d), PInt (fe_len_extended_attrs d),
                  PInt (fe_len_alloc_descs d)] of
            Inl e \<Rightarrow> Inl e
          | Inr packed \<Rightarrow>
         (case UDFFileEntry_record_alloc_descs (fe_alloc_descs d) of
            Inl e \<Rightarrow> Inl e
          | Inr descs \<Rightarrow>
             (let rec = drop 16 packed @ descs in
              case UDFTag_record (Some (desc_tag d)) rec of
                Inl e \<Rightarrow> Inl e
              | Inr t \<Rightarrow> Inr (t @ rec)))))))))))"

definition UDFFileEntry_extent_location :: "UDFFileEntry option \<Rightarrow> error + int" where
  "UDFFileEntry_extent_location self =
     (case self of
        None \<Rightarrow> Inl (PyCdlibInternalError ''UDF File Entry not initialized'')
      | Some d \<Rightarrow> current_extent d)"

definition UDFFileEntry_set_location ::
  "UDFFileEntry option \<Rightarrow> int \<Rightarrow> int \<Rightarrow> error + UDFFileEntry" where
  "UDFFileEntry_set_location self new_location tag_location' =
     (case self of
        None \<Rightarrow> Inl (PyCdlibInternalError ''UDF File Entry not initialized'')
      | Some d \<Rightarrow>
          Inr (d\<lparr>new_extent_loc := PyInt new_location,
                 desc_tag := (desc_tag d)\<lparr>tag_location := tag_location'\<rparr>\<rparr>))"

section \<open>UDFFileIdentifierDescriptor\<close>

text \<open>
  The attribute \<open>file_entry\<close> is set to \<open>None\<close> by \<open>__init__\<close> and not touched by the
  methods modelled here.
\<close>

record UDFFileIdentifierDescriptor = tagged +
  fid_file_characteristics :: int
  fid_len_fi :: int
  fid_len_impl_use :: int
  fid_fi :: bytes
  fid_isdir :: bool
  fid_isparent :: bool
  fid_icb :: UDFLongAD
  fid_impl_use :: bytes

definition UDFFileIdentifierDescriptor_FMT :: "fmt list" where
  "UDFFileIdentifierDescriptor_FMT = [Fmt_s 16, Fmt_H, Fmt_B, Fmt_B, Fmt_s 16, Fmt_H]"

definition UDFFileIdentifierDescriptor_pad :: "int \<Rightarrow> int" where
  "UDFFileIdentifierDescriptor_pad val = 4 * ((val + 3) div 4) - val"

text \<open>\<open>parse\<close> returns the number of bytes consumed, next to the object it fills.\<close>

definition UDFFileIdentifierDescriptor_parse ::
  "UDFFileIdentifierDescriptor option \<Rightarrow> bytes \<Rightarrow> int \<Rightarrow> int \<Rightarrow>
     error + (UDFFileIdentifierDescriptor \<times> int)" where
  "UDFFileIdentifierDescriptor_parse self data extent start_extent =
     (if self \<noteq> None then
        Inl (PyCdlibInternalError ''UDF File Identifier Descriptor already initialized'')
      else case unpack_from UDFFileIdentifierDescriptor_FMT data of
        Inl e \<Rightarrow> Inl e
      | Inr [PBytes desc_tag', PInt file_version_num, PInt file_characteristics, PInt len_fi,
             PBytes icb, PInt len_impl_use] \<Rightarrow>
          (case UDFTag_parse None desc_tag' (extent - start_extent) (drop 16 data) of
             Inl e \<Rightarrow> Inl e
           | Inr tag \<Rightarrow>
               if tag_ident tag \<noteq> 257 then
                 Inl (PyCdlibInvalidISO ''File Identifier Descriptor Tag identifier not 257'')
               else if file_version_num \<noteq> 1 then
                 Inl (PyCdlibInvalidISO
                   ''File Identifier Descriptor file version number not 1'')
               else (let isdir = (file_characteristics AND 0x2 \<noteq> 0);
                         isparent = (file_characteristics AND 0x8 \<noteq> 0)
                     in case UDFLongAD_parse None icb of
                          Inl e \<Rightarrow> Inl e
                        | Inr icb' \<Rightarrow>
                           (let start = 38;
                                end' = 38 + len_impl_use;
                                impl_use = take (nat end' - nat start) (drop (nat start) data);
                                start = end';
                                end' = end' + len_fi;
                                fi = take (nat end' - nat start) (drop (nat start) data)
                            in Inr (\<lparr>orig_extent_loc = Some extent, new_extent_loc = PyNone,
                                     desc_tag = tag,
                                     fid_file_characteristics = file_characteristics,
                                     fid_len_fi = len_fi, fid_len_impl_use = len_impl_use,
                                     fid_fi = fi, fid_isdir = isdir, fid_isparent = isparent,
                                     fid_icb = icb', fid_impl_use = impl_use\<rparr>,
                                    end' + UDFFileIdentifierDescriptor_pad end'))))
      | Inr _ \<Rightarrow> Inl StructError)"

definition UDFFileIdentifierDescriptor_is_dir ::
  "UDFFileIdentifierDescriptor option \<Rightarrow> error + bool" where
  "UDFFileIdentifierDescriptor_is_dir self =
     (case self of
        None \<Rightarrow> Inl (PyCdlibInternalError ''UDF File Identifier Descriptor not initialized'')
      | Some d \<Rightarrow> Inr (fid_isdir d))"

definition UDFFileIdentifierDescriptor_is_parent ::
  "UDFFileIdentifierDescriptor option \<Rightarrow> error + bool" where
  "UDFFileIdentifierDescriptor_is_parent self =
     (case self of
        None \<Rightarrow> Inl (PyCdlibInternalError ''UDF File Identifier Descriptor not initialized'')
      | Some d \<Rightarrow> Inr (fid_isparent d))"

definition UDFFileIdentifierDescriptor_record ::
  "UDFFileIdentifierDescriptor option \<Rightarrow> error + bytes" where
  "UDFFileIdentifierDescriptor_record self =
     (case self of
        None \<Rightarrow> Inl (PyCdlibInternalError ''UDF File Identifier Descriptor not initialized'')
      | Some d \<Rightarrow>
         (case UDFLongAD_record (Some (fid_icb d)) of
            Inl e \<Rightarrow> Inl e
          | Inr icb \<Rightarrow>
         (case pack UDFFileIdentifierDescriptor_FMT
                 [PBytes (zeros 16), PInt 1, PInt (fid_file_characteristics d),
                  PInt (fid_len_fi d), PBytes icb, PInt (fid_len_impl_use d)] of
            Inl e \<Rightarrow> Inl e
          | Inr packed \<Rightarrow>
             (let rec = packed @ fid_impl_use d @ fid_fi d @
                        zeros (nat (UDFFileIdentifierDescriptor_pad
                          (int (calcsize UDFFileIdentifierDescriptor_FMT) +
                           fid_len_impl_use d + fid_len_fi d)))
              in case UDFTag_record (Some (desc_tag d)) (drop 16 rec) of
                   Inl e \<Rightarrow> Inl e
                 | Inr t \<Rightarrow> Inr (t @ drop 16 rec)))))"

definition UDFFileIdentifierDescriptor_extent_location ::
  "UDFFileIdentifierDescriptor option \<Rightarrow> error + int" where
  "UDFFileIdentifierDescriptor_extent_location self =
     (case self of
        None \<Rightarrow> Inl (PyCdlibInternalError ''UDF File Identifier not initialized'')
      | Some d \<Rightarrow> current_extent d)"

definition UDFFileIdentifierDescriptor_set_location ::
  "UDFFileIdentifierDescriptor option \<Rightarrow> int \<Rightarrow> int \<Rightarrow> error + UDFFileIdentifierDescriptor" where
  "UDFFileIdentifierDescriptor_set_location self new_location tag_location' =
     (case self of
        None \<Rightarrow> Inl (PyCdlibInternalError ''UDF File Identifier not initialized'')
      | Some d \<Rightarrow>
          Inr (d\<lparr>new_extent_loc := PyInt new_location,
                 desc_tag := (desc_tag d)\<lparr>tag_location := tag_location'\<rparr>\<rparr>))"

section \<open>Notions used to state the properties\<close>

text \<open>
  The fields of the 16-byte tag at the start of a byte buffer, read as \<open>UDFTag.FMT\<close>
  lays them out: the checksum is the byte at offset 4, \<open>desc_crc\<close> the 16-bit value at
  offset 8, \<open>desc_crc_length\<close> the one at offset 10 and \<open>tag_location\<close> the 32-bit
  value at offset 12.
\<close>

definition tag_checksum_of :: "bytes \<Rightarrow> int" where
  "tag_checksum_of d = uint (d ! 4)"

definition desc_crc_of :: "bytes \<Rightarrow> int" where
  "desc_crc_of d = le_int (take 2 (drop 8 d))"

definition desc_crc_length_of :: "bytes \<Rightarrow> int" where
  "desc_crc_length_of d = le_int (take 2 (drop 10 d))"

definition tag_location_of :: "bytes \<Rightarrow> int" where
  "tag_location_of d = le_int (take 4 (drop 12 d))"

text \<open>
  The checksum rule: the sum of the 16 tag bytes minus the byte at offset 4, modulo 256,
  is the byte at offset 4.
\<close>

definition tag_checksum_ok :: "bytes \<Rightarrow> bool" where
  "tag_checksum_ok d =
     ((sum_list (map uint (take 16 d)) - uint (d ! 4)) mod 256 = tag_checksum_of d)"

text \<open>The values that \<open>UDFTag.record\<close> hands to \<open>struct.pack\<close>.\<close>

definition tag_fields :: "UDFTag \<Rightarrow> bytes \<Rightarrow> pyval list" where
  "tag_fields t crc_bytes =
     [PInt (tag_ident t), PInt (desc_version t), PInt 0, PInt 0,
      PInt (tag_serial_number t), PInt (crc_ccitt crc_bytes),
      PInt (int (length crc_bytes)), PInt (tag_location t)]"

text \<open>Whether the four attributes of a tag fit the widths of their fields.\<close>

definition tag_in_range :: "UDFTag \<Rightarrow> bool" where
  "tag_in_range t =
     (0 \<le> tag_ident t \<and> tag_ident t < 65536 \<and> 0 \<le> desc_version t \<and> desc_version t < 65536 \<and>
      0 \<le> tag_serial_number t \<and> tag_serial_number t < 65536 \<and>
      0 \<le> tag_location t \<and> tag_location t < 4294967296)"

section \<open>Lemmas about the codec\<close>

lemma length_le_bytes [simp]: "length (le_bytes n v) = n"
  by (induction n arbitrary: v) auto

lemma le_int_nonneg [simp]: "0 \<le> le_int bs"
  by (induction bs) auto

lemma le_int_bound: "le_int bs < 2 ^ (8 * length bs)"
proof (induction bs)
  case Nil
  then show ?case by simp
next
  case (Cons b bs)
  have "uint b < 256" using uint_bounded [of b] by simp
  moreover have "le_int bs + 1 \<le> 2 ^ (8 * length bs)" using Cons by simp
  then have "256 * (le_int bs + 1) \<le> 256 * 2 ^ (8 * length bs)" by simp
  ultimately have "uint b + 256 * le_int bs < 256 * 2 ^ (8 * length bs)" by (simp add: algebra_simps)
  then show ?case by (simp add: power_add)
qed

lemma le_int_take_bound: "le_int (take n bs) < 2 ^ (8 * n)"
proof -
  have "le_int (take n bs) < 2 ^ (8 * length (take n bs))" by (rule le_int_bound)
  also have "\<dots> \<le> (2::int) ^ (8 * n)" by (rule power_increasing) simp_all
  finally show ?thesis .
qed

lemma uint_word8_of_int: "uint (word_of_int k :: byte) = k mod 256"
  by (simp add: uint_word_of_int take_bit_eq_mod)

lemma word8_of_int_split: "(word_of_int (uint b + 256 * x) :: byte) = b"
proof -
  have "uint b < 256" using uint_bounded [of b] by simp
  then have "(uint b + 256 * x) mod 256 = uint b" by simp
  then have "uint (word_of_int (uint b + 256 * x) :: byte) = uint b"
    by (simp only: uint_word8_of_int)
  then show ?thesis by (simp only: word_uint_eq_iff)
qed

lemma le_bytes_le_int: "le_bytes (length bs) (le_int bs) = bs"
proof (induction bs)
  case Nil
  then show ?case by simp
next
  case (Cons b bs)
  have "uint b < 256" using uint_bounded [of b] by simp
  then have "(uint b + 256 * le_int bs) div 256 = le_int bs" by simp
  then show ?case using Cons by (simp only: le_int.simps length_Cons le_bytes.simps word8_of_int_split)
qed

lemma le_int_le_bytes: "0 \<le> v \<Longrightarrow> v < 2 ^ (8 * n) \<Longrightarrow> le_int (le_bytes n v) = v"
proof (induction n arbitrary: v)
  case 0
  then show ?case by simp
next
  case (Suc n)
  define K :: int where "K = 2 ^ (8 * n)"
  have "v < 256 * K" using Suc.prems by (simp add: power_add K_def)
  moreover have "v = 256 * (v div 256) + v mod 256" by simp
  moreover have "0 \<le> v mod 256" by simp
  ultimately have "v div 256 < K" by linarith
  moreover have "0 \<le> v div 256" using Suc.prems by simp
  ultimately have IH: "le_int (le_bytes n (v div 256)) = v div 256"
    using Suc.IH [of "v div 256"] by (simp add: K_def)
  have "uint (word_of_int v :: byte) = v mod 256"
    by (simp add: uint_word_of_int take_bit_eq_mod)
  then show ?case using IH by simp
qed


subsection \<open>Evaluating the CRC\<close>

lemma tab_nth: "k < 256 \<Longrightarrow> tab ! k = initial (int k)"
  by (simp add: tab_def)

lemma and_255_bounds: "0 \<le> (x::int) AND 255" "(x::int) AND 255 < 256"
proof -
  show "0 \<le> x AND 255" by simp
  have "x AND 255 \<le> 255" by (rule AND_upper2) simp
  then show "x AND 255 < 256" by simp
qed

lemma update_crc_eval:
  "update_crc crc c =
     (push_bit 8 crc XOR initial ((drop_bit 8 crc XOR (255 AND c)) AND 255)) AND 65535"
  using and_255_bounds [of "drop_bit 8 crc XOR (255 AND c)"]
  by (simp add: update_crc_def Let_def tab_nth nat_less_iff)

lemma initial_unroll:
  "initial c =
     initial_loop (Suc (Suc (Suc (Suc (Suc (Suc (Suc (Suc 0)))))))) 0 (push_bit 8 c)"
  by (simp add: initial_def eval_nat_numeral)

lemmas crc_eval = crc_ccitt_def update_crc_eval initial_unroll POLYNOMIAL_def

lemma take_10_tab: "take 10 tab = map initial [0, 1, 2, 3, 4, 5, 6, 7, 8, 9]"
proof -
  have "take 10 tab = map (\<lambda>i. initial (int i)) (take 10 [0..<256])"
    by (simp only: tab_def take_map)
  also have "take 10 [0..<256] = [0..<10]" by simp
  also have "[0..<10] = [0, 1, 2, 3, 4, 5, 6, 7, 8, 9::nat]"
    by (simp add: upt_rec)
  finally show ?thesis by simp
qed

lemma initial_unmasked_entries:
  "map initial [0, 1, 2, 3, 4, 5, 6, 7, 8, 9] =
     [0x00000, 0x11021, 0x22042, 0x33063, 0x44084, 0x550A5, 0x660C6, 0x770E7, 0x88108, 0x99129]"
  by (simp add: initial_unroll POLYNOMIAL_def)

subsection \<open>The tag\<close>

lemma le_bytes_1: "le_bytes 1 v = [word_of_int v]"
  by (simp add: numeral_eq_Suc)

lemma le_bytes_2: "le_bytes 2 v = [word_of_int v, word_of_int (v div 256)]"
  by (simp add: numeral_eq_Suc)

lemma le_bytes_4:
  "le_bytes 4 v = [word_of_int v, word_of_int (v div 256), word_of_int (v div 256 div 256),
     word_of_int (v div 256 div 256 div 256)]"
  by (simp add: numeral_eq_Suc)

lemma le_bytes_8:
  "le_bytes 8 v = [word_of_int v, word_of_int (v div 256), word_of_int (v div 256 div 256),
     word_of_int (v div 256 div 256 div 256), word_of_int (v div 256 div 256 div 256 div 256),
     word_of_int (v div 256 div 256 div 256 div 256 div 256),
     word_of_int (v div 256 div 256 div 256 div 256 div 256 div 256),
     word_of_int (v div 256 div 256 div 256 div 256 div 256 div 256 div 256)]"
  by (simp add: numeral_eq_Suc)

lemmas le_bytes_num = le_bytes_1 le_bytes_2 le_bytes_4 le_bytes_8

lemma int_sum_list_update:
  "k < length xs \<Longrightarrow> sum_list (xs[k := (x::int)]) = sum_list xs + x - xs ! k"
proof (induction xs arbitrary: k)
  case Nil
  then show ?case by simp
next
  case (Cons y ys)
  then show ?case by (cases k) simp_all
qed

lemma uint_sum_update:
  assumes "k < length xs"
  shows "sum_list (map uint (xs[k := x])) = sum_list (map uint xs) + uint x - uint (xs ! k)"
  using assms by (simp add: map_update int_sum_list_update)

lemma patched_checksum:
  assumes len: "length rec = 16" and z: "rec ! 4 = 0"
  shows "tag_checksum_ok (rec[4 := word_of_int (sum_list (map uint rec) mod 256)])"
proof -
  define S where "S = sum_list (map uint rec)"
  define out where "out = rec[4 := (word_of_int (S mod 256) :: byte)]"
  have u: "uint (word_of_int (S mod 256) :: byte) = S mod 256"
    by (simp add: uint_word8_of_int)
  have o4: "out ! 4 = word_of_int (S mod 256)" using len by (simp add: out_def)
  have "sum_list (map uint out) = S + S mod 256 - uint (rec ! 4)"
    unfolding out_def S_def using len u by (simp add: uint_sum_update S_def)
  then have "sum_list (map uint out) = S + S mod 256" using z by simp
  moreover have "take 16 out = out" using len by (simp add: out_def)
  ultimately show ?thesis
    unfolding tag_checksum_ok_def tag_checksum_of_def
      out_def [symmetric, unfolded S_def [symmetric]] S_def [symmetric]
    using o4 u by simp
qed

lemma UDFTag_record_cases:
  "UDFTag_record (Some t) crc =
     (if pack_ok UDFTag_FMT (tag_fields t crc)
      then Inr ((pack_fields UDFTag_FMT (tag_fields t crc))
                 [4 := word_of_int
                    (sum_list (map uint (pack_fields UDFTag_FMT (tag_fields t crc))) mod 256)])
      else Inl StructError)"
proof (cases "pack_ok UDFTag_FMT (tag_fields t crc)")
  case False
  then show ?thesis by (simp add: UDFTag_record_def pack_def tag_fields_def)
next
  case True
  define rec where "rec = pack_fields UDFTag_FMT (tag_fields t crc)"
  have len: "length rec = 16" by (simp add: rec_def UDFTag_FMT_def tag_fields_def)
  have z: "rec ! 4 = 0"
    by (simp add: rec_def UDFTag_FMT_def tag_fields_def le_bytes_num)
  have cs: "compute_csum rec = Inr (sum_list (map uint rec) mod 256)"
    using len z by (simp add: compute_csum_def Let_def)
  have pk: "pack [Fmt_B] [PInt (sum_list (map uint rec) mod 256)]
      = Inr [word_of_int (sum_list (map uint rec) mod 256)]"
    by (simp add: pack_def le_bytes_num)
  have "UDFTag_record (Some t) crc =
      Inr (rec[4 := word_of_int (sum_list (map uint rec) mod 256)])"
    using True cs pk
    by (simp add: UDFTag_record_def pack_def tag_fields_def [symmetric] rec_def [symmetric])
  then show ?thesis using True by (simp add: rec_def)
qed

lemma update_crc_range: "0 \<le> update_crc crc c \<and> update_crc crc c < 65536"
proof -
  define X where
    "X = push_bit 8 crc XOR tab ! nat ((drop_bit 8 crc XOR (255 AND c)) AND 255)"
  have e: "update_crc crc c = X AND 65535"
    by (simp add: update_crc_def Let_def X_def)
  have "0 \<le> X AND 65535" by simp
  moreover have "X AND 65535 \<le> 65535" by (rule AND_upper2) simp
  ultimately show ?thesis unfolding e by simp
qed

lemma crc_loop_range:
  "0 \<le> crc \<Longrightarrow> crc < 65536 \<Longrightarrow> 0 \<le> crc_loop crc d \<and> crc_loop crc d < 65536"
proof (induction d arbitrary: crc)
  case Nil
  then show ?case by simp
next
  case (Cons c cs)
  show ?case using Cons.IH [of "update_crc crc (uint c)"] update_crc_range [of crc "uint c"]
    by simp
qed

lemma crc_ccitt_range: "0 \<le> crc_ccitt d" "crc_ccitt d < 65536"
  using crc_loop_range [of 0 d] by (simp_all add: crc_ccitt_def)

lemma crc_ccitt_Nil [simp]: "crc_ccitt [] = 0"
  by (simp add: crc_ccitt_def)

lemma tag_fields_ok_iff:
  "pack_ok UDFTag_FMT (tag_fields t crc) \<longleftrightarrow> tag_in_range t \<and> length crc < 65536"
  using crc_ccitt_range [of crc]
  by (auto simp add: UDFTag_FMT_def tag_fields_def tag_in_range_def)

lemma UDFTag_record_Inr:
  assumes "UDFTag_record tg crc = Inr out"
  obtains t where "tg = Some t" and "length out = 16" and "tag_checksum_ok out"
    and "take 2 out = le_bytes 2 (tag_ident t)"
    and "take 2 (drop 2 out) = le_bytes 2 (desc_version t)"
    and "out ! 5 = 0"
    and "take 2 (drop 6 out) = le_bytes 2 (tag_serial_number t)"
    and "desc_crc_of out = crc_ccitt crc"
    and "desc_crc_length_of out = int (length crc)"
    and "tag_location_of out = tag_location t"
    and "tag_in_range t" and "length crc < 65536"
proof -
  from assms obtain t where tg: "tg = Some t"
    by (cases tg) (simp_all add: UDFTag_record_def)
  define rec where "rec = pack_fields UDFTag_FMT (tag_fields t crc)"
  from assms have ok: "pack_ok UDFTag_FMT (tag_fields t crc)"
    and out: "out = rec[4 := word_of_int (sum_list (map uint rec) mod 256)]"
    by (simp_all add: tg UDFTag_record_cases rec_def split: if_splits)
  from ok have rng: "tag_in_range t" and lc: "length crc < 65536"
    by (simp_all add: tag_fields_ok_iff)
  have len: "length rec = 16" by (simp add: rec_def UDFTag_FMT_def tag_fields_def)
  have z: "rec ! 4 = 0"
    by (simp add: rec_def UDFTag_FMT_def tag_fields_def le_bytes_num)
  have recx: "rec = le_bytes 2 (tag_ident t) @ le_bytes 2 (desc_version t) @ [0, 0] @
      le_bytes 2 (tag_serial_number t) @ le_bytes 2 (crc_ccitt crc) @
      le_bytes 2 (int (length crc)) @ le_bytes 4 (tag_location t)"
    by (simp add: rec_def UDFTag_FMT_def tag_fields_def le_bytes_num)
  have d8: "take 2 (drop 8 out) = le_bytes 2 (crc_ccitt crc)"
    unfolding out recx by (simp add: le_bytes_num)
  have d10: "take 2 (drop 10 out) = le_bytes 2 (int (length crc))"
    unfolding out recx by (simp add: le_bytes_num)
  have d12: "take 4 (drop 12 out) = le_bytes 4 (tag_location t)"
    unfolding out recx by (simp add: le_bytes_num)
  show thesis
  proof (rule that [OF tg])
    show "length out = 16" using len out by simp
    show "tag_checksum_ok out" unfolding out by (rule patched_checksum [OF len z])
    show "take 2 out = le_bytes 2 (tag_ident t)"
      unfolding out recx by (simp add: le_bytes_num)
    show "take 2 (drop 2 out) = le_bytes 2 (desc_version t)"
      unfolding out recx by (simp add: le_bytes_num)
    show "out ! 5 = 0"
      unfolding out recx by (simp add: le_bytes_num)
    show "take 2 (drop 6 out) = le_bytes 2 (tag_serial_number t)"
      unfolding out recx by (simp add: le_bytes_num)
    show "desc_crc_of out = crc_ccitt crc"
      unfolding desc_crc_of_def d8 using crc_ccitt_range [of crc]
      by (intro le_int_le_bytes) simp_all
    show "desc_crc_length_of out = int (length crc)"
      unfolding desc_crc_length_of_def d10 using lc
      by (intro le_int_le_bytes) simp_all
    show "tag_location_of out = tag_location t"
      unfolding tag_location_of_def d12 using rng
      by (intro le_int_le_bytes) (simp_all add: tag_in_range_def)
    show "tag_in_range t" by (rule rng)
    show "length crc < 65536" by (rule lc)
  qed
qed

lemma UDFTag_record_returns:
  "(\<exists>out. UDFTag_record (Some t) crc = Inr out) \<longleftrightarrow> tag_in_range t \<and> length crc < 65536"
  by (simp add: UDFTag_record_cases tag_fields_ok_iff)

lemma UDFTag_record_raises:
  "\<not> (tag_in_range t \<and> length crc < 65536) \<Longrightarrow> UDFTag_record (Some t) crc = Inl StructError"
  by (simp add: UDFTag_record_cases tag_fields_ok_iff)

lemma tagged_record_checksum:
  assumes "UDFTag_record tg crc = Inr t"
  shows "tag_checksum_ok (t @ rec)"
proof -
  from assms have "length t = 16" and "tag_checksum_ok t"
    by (auto elim: UDFTag_record_Inr)
  then show ?thesis by (simp add: tag_checksum_ok_def tag_checksum_of_def nth_append)
qed

lemma unpack_tag_fields:
  "unpack_fields UDFTag_FMT data =
     [PInt (le_int (take 2 data)), PInt (le_int (take 2 (drop 2 data))),
      PInt (le_int (take 1 (drop 4 data))), PInt (le_int (take 1 (drop 5 data))),
      PInt (le_int (take 2 (drop 6 data))), PInt (desc_crc_of data),
      PInt (desc_crc_length_of data), PInt (tag_location_of data)]"
  by (simp add: UDFTag_FMT_def desc_crc_of_def desc_crc_length_of_def tag_location_of_def)

lemma calcsize_UDFTag_FMT [simp]: "calcsize UDFTag_FMT = 16"
  by (simp add: UDFTag_FMT_def)

lemma UDFTag_parse_Inr:
  assumes "UDFTag_parse self data extent cb = Inr t"
  shows "self = None" and "16 \<le> length data"
    and "t = \<lparr>tag_ident = le_int (take 2 data), desc_version = le_int (take 2 (drop 2 data)),
              tag_serial_number = le_int (take 2 (drop 6 data)),
              tag_location = tag_location_of data\<rparr>"
    and "le_int (take 1 (drop 5 data)) = 0"
    and "compute_csum data = Inr (le_int (take 1 (drop 4 data)))"
    and "tag_location_of data = extent"
    and "desc_version t = 2 \<or> desc_version t = 3"
    and "desc_crc_length_of data \<le> int (length cb)"
    and "desc_crc_of data = crc_ccitt (take (nat (desc_crc_length_of data)) cb)"
  using assms
  by (auto simp add: UDFTag_parse_def unpack_from_def unpack_tag_fields
      split: if_splits sum.splits)

lemma UDFTag_parse_location:
  assumes "UDFTag_parse self data extent cb = Inr t"
  shows "tag_location t = extent"
  using UDFTag_parse_Inr(3) [OF assms] UDFTag_parse_Inr(6) [OF assms] by simp

subsection \<open>What \<open>struct.pack\<close> returns\<close>

lemma length_pack_fields: "pack_ok fs vs \<Longrightarrow> length (pack_fields fs vs) = calcsize fs"
  by (induction fs vs rule: pack_ok.induct) simp_all

lemma length_pack: "pack fs vs = Inr b \<Longrightarrow> length b = calcsize fs"
  by (auto simp add: pack_def length_pack_fields split: if_splits)

subsection \<open>Inversion of the \<open>record\<close> methods\<close>

lemma UDFAnchorVolumeStructure_record_Inr:
  assumes "UDFAnchorVolumeStructure_record self = Inr out"
  obtains d t rec where "self = Some d" and "out = t @ rec" and "length rec = 496"
    and "UDFTag_record (Some (udf_tag d)) rec = Inr t"
  using assms
  by (auto simp add: UDFAnchorVolumeStructure_record_def Let_def UDFAnchorVolumeStructure_FMT_def zeros_def
      dest!: length_pack
      split: option.splits sum.splits intro: that)

lemma UDFPrimaryVolumeDescriptor_record_Inr:
  assumes "UDFPrimaryVolumeDescriptor_record self = Inr out"
  obtains d t rec where "self = Some d" and "out = t @ rec" and "length rec = 496"
    and "UDFTag_record (Some (desc_tag d)) rec = Inr t"
  using assms
  by (auto simp add: UDFPrimaryVolumeDescriptor_record_def Let_def UDFPrimaryVolumeDescriptor_FMT_def
      dest!: length_pack
      split: option.splits sum.splits intro: that)

lemma UDFImplementationUseVolumeDescriptor_record_Inr:
  assumes "UDFImplementationUseVolumeDescriptor_record self = Inr out"
  obtains d t rec where "self = Some d" and "out = t @ rec" and "length rec = 496"
    and "UDFTag_record (Some (desc_tag d)) rec = Inr t"
  using assms
  by (auto simp add: UDFImplementationUseVolumeDescriptor_record_def Let_def UDFImplementationUseVolumeDescriptor_FMT_def
      dest!: length_pack
      split: option.splits sum.splits intro: that)

lemma UDFPartitionVolumeDescriptor_record_Inr:
  assumes "UDFPartitionVolumeDescriptor_record self = Inr out"
  obtains d t rec where "self = Some d" and "out = t @ rec" and "length rec = 496"
    and "UDFTag_record (Some (desc_tag d)) rec = Inr t"
  using assms
  by (auto simp add: UDFPartitionVolumeDescriptor_record_def Let_def UDFPartitionVolumeDescriptor_FMT_def
      dest!: length_pack
      split: option.splits sum.splits intro: that)

lemma UDFLogicalVolumeDescriptor_record_Inr:
  assumes "UDFLogicalVolumeDescriptor_record self = Inr out"
  obtains d t rec where "self = Some d" and "out = t @ rec" and "length rec = 430"
    and "UDFTag_record (Some (desc_tag d)) rec = Inr t"
  using assms
  by (auto simp add: UDFLogicalVolumeDescriptor_record_def Let_def UDFLogicalVolumeDescriptor_FMT_def
      dest!: length_pack
      split: option.splits sum.splits intro: that)

lemma UDFUnallocatedSpaceDescriptor_record_Inr:
  assumes "UDFUnallocatedSpaceDescriptor_record self = Inr out"
  obtains d t rec where "self = Some d" and "out = t @ rec" and "length rec = 8"
    and "UDFTag_record (Some (desc_tag d)) rec = Inr t"
  using assms
  by (auto simp add: UDFUnallocatedSpaceDescriptor_record_def Let_def UDFUnallocatedSpaceDescriptor_FMT_def
      dest!: length_pack
      split: option.splits sum.splits intro: that)

lemma UDFTerminatingDescriptor_record_Inr:
  assumes "UDFTerminatingDescriptor_record self = Inr out"
  obtains d t rec where "self = Some d" and "out = t @ rec" and "length rec = 496"
    and "UDFTag_record (Some (desc_tag d)) rec = Inr t"
  using assms
  by (auto simp add: UDFTerminatingDescriptor_record_def Let_def UDFTerminatingDescriptor_FMT_def
      dest!: length_pack
      split: option.splits sum.splits intro: that)

lemma UDFLogicalVolumeIntegrityDescriptor_record_Inr:
  assumes "UDFLogicalVolumeIntegrityDescriptor_record self = Inr out"
  obtains d t rec where "self = Some d" and "out = t @ rec" and "length rec = 496"
    and "UDFTag_record (Some (desc_tag d)) (take 118 rec) = Inr t"
  using assms
  by (auto simp add: UDFLogicalVolumeIntegrityDescriptor_record_def Let_def UDFLogicalVolumeIntegrityDescriptor_FMT_def
      dest!: length_pack
      split: option.splits sum.splits intro: that)

lemma UDFFileSetDescriptor_record_Inr:
  assumes "UDFFileSetDescriptor_record self = Inr out"
  obtains d t rec where "self = Some d" and "out = t @ rec" and "length rec = 496"
    and "UDFTag_record (Some (desc_tag d)) rec = Inr t"
  using assms
  by (auto simp add: UDFFileSetDescriptor_record_def Let_def UDFFileSetDescriptor_FMT_def
      dest!: length_pack
      split: option.splits sum.splits intro: that)

lemma UDFFileEntry_record_Inr:
  assumes "UDFFileEntry_record self = Inr out"
  obtains d t rec where "self = Some d" and "out = t @ rec"
    and "UDFTag_record (Some (desc_tag d)) rec = Inr t"
  using assms
  by (auto simp add: UDFFileEntry_record_def Let_def
      split: option.splits sum.splits intro: that)

lemma UDFFileIdentifierDescriptor_record_Inr:
  assumes "UDFFileIdentifierDescriptor_record self = Inr out"
  obtains d t rec where "self = Some d" and "out = t @ rec"
    and "UDFTag_record (Some (desc_tag d)) rec = Inr t"
  using assms
  by (auto simp add: UDFFileIdentifierDescriptor_record_def Let_def
      split: option.splits sum.splits intro: that)

subsection \<open>Inversion of the \<open>parse\<close> methods\<close>

lemma VolumeStructure_parse_Inr:
  assumes "VolumeStructure_parse ident already self data extent = Inr d"
  shows "self = None" and "orig_extent_loc d = Some extent" and "new_extent_loc d = PyNone"
  using assms
  by (auto simp add: VolumeStructure_parse_def unpack_from_def VolumeStructure_FMT_def
      split: if_splits sum.splits)

lemma UDFAnchorVolumeStructure_parse_Inr:
  assumes "UDFAnchorVolumeStructure_parse self data extent = Inr d"
  shows "self = None" and "orig_extent_loc d = Some extent" and "new_extent_loc d = PyNone"
    and "UDFTag_parse None (take 16 data) extent (drop 16 data) = Inr (udf_tag d)"
    and "32 \<le> length data" and "tag_ident (udf_tag d) = 2"
  using assms
  by (auto simp add: UDFAnchorVolumeStructure_parse_def unpack_from_def UDFAnchorVolumeStructure_FMT_def Let_def
      split: if_splits sum.splits)

lemma UDFPrimaryVolumeDescriptor_parse_Inr:
  assumes "UDFPrimaryVolumeDescriptor_parse self data extent = Inr d"
  shows "self = None" and "orig_extent_loc d = Some extent" and "new_extent_loc d = PyNone"
    and "UDFTag_parse None (take 16 data) extent (drop 16 data) = Inr (desc_tag d)"
    and "512 \<le> length data" and "tag_ident (desc_tag d) = 1"
  using assms
  by (auto simp add: UDFPrimaryVolumeDescriptor_parse_def unpack_from_def UDFPrimaryVolumeDescriptor_FMT_def Let_def
      split: if_splits sum.splits)

lemma UDFImplementationUseVolumeDescriptor_parse_Inr:
  assumes "UDFImplementationUseVolumeDescriptor_parse self data extent = Inr d"
  shows "self = None" and "orig_extent_loc d = Some extent" and "new_extent_loc d = PyNone"
    and "UDFTag_parse None (take 16 data) extent (drop 16 data) = Inr (desc_tag d)"
    and "512 \<le> length data" and "tag_ident (desc_tag d) = 4"
  using assms
  by (auto simp add: UDFImplementationUseVolumeDescriptor_parse_def unpack_from_def UDFImplementationUseVolumeDescriptor_FMT_def Let_def
      split: if_splits sum.splits)

lemma UDFPartitionVolumeDescriptor_parse_Inr:
  assumes "UDFPartitionVolumeDescriptor_parse self data extent = Inr d"
  shows "self = None" and "orig_extent_loc d = Some extent" and "new_extent_loc d = PyNone"
    and "UDFTag_parse None (take 16 data) extent (drop 16 data) = Inr (desc_tag d)"
    and "512 \<le> length data" and "tag_ident (desc_tag d) = 5"
  using assms
  by (auto simp add: UDFPartitionVolumeDescriptor_parse_def unpack_from_def UDFPartitionVolumeDescriptor_FMT_def Let_def
      split: if_splits sum.splits)

lemma UDFLogicalVolumeDescriptor_parse_Inr:
  assumes "UDFLogicalVolumeDescriptor_parse self data extent = Inr d"
  shows "self = None" and "orig_extent_loc d = Some extent" and "new_extent_loc d = PyNone"
    and "UDFTag_parse None (take 16 data) extent (drop 16 data) = Inr (desc_tag d)"
    and "446 \<le> length data" and "tag_ident (desc_tag d) = 6"
  using assms
  by (auto simp add: UDFLogicalVolumeDescriptor_parse_def unpack_from_def UDFLogicalVolumeDescriptor_FMT_def Let_def
      split: if_splits sum.splits)

lemma UDFUnallocatedSpaceDescriptor_parse_Inr:
  assumes "UDFUnallocatedSpaceDescriptor_parse self data extent = Inr d"
  shows "self = None" and "orig_extent_loc d = Some extent" and "new_extent_loc d = PyNone"
    and "UDFTag_parse None (take 16 data) extent (drop 16 data) = Inr (desc_tag d)"
    and "24 \<le> length data" and "tag_ident (desc_tag d) = 7"
  using assms
  by (auto simp add: UDFUnallocatedSpaceDescriptor_parse_def unpack_from_def UDFUnallocatedSpaceDescriptor_FMT_def Let_def
      split: if_splits sum.splits)

lemma UDFTerminatingDescriptor_parse_Inr:
  assumes "UDFTerminatingDescriptor_parse self data extent start_extent = Inr d"
  shows "self = None" and "orig_extent_loc d = Some extent" and "new_extent_loc d = PyNone"
    and "UDFTag_parse None (take 16 data) (extent - start_extent) (drop 16 data) = Inr (desc_tag d)"
    and "512 \<le> length data" and "tag_ident (desc_tag d) = 8"
  using assms
  by (auto simp add: UDFTerminatingDescriptor_parse_def unpack_from_def UDFTerminatingDescriptor_FMT_def Let_def
      split: if_splits sum.splits)

lemma UDFLogicalVolumeIntegrityDescriptor_parse_Inr:
  assumes "UDFLogicalVolumeIntegrityDescriptor_parse self data extent = Inr d"
  shows "self = None" and "orig_extent_loc d = Some extent" and "new_extent_loc d = PyNone"
    and "UDFTag_parse None (take 16 data) extent (take 118 (drop 16 data)) = Inr (desc_tag d)"
    and "512 \<le> length data" and "tag_ident (desc_tag d) = 9"
  using assms
  by (auto simp add: UDFLogicalVolumeIntegrityDescriptor_parse_def unpack_from_def UDFLogicalVolumeIntegrityDescriptor_FMT_def Let_def
      split: if_splits sum.splits)

lemma UDFFileSetDescriptor_parse_Inr:
  assumes "UDFFileSetDescriptor_parse self data extent start_extent = Inr d"
  shows "self = None" and "orig_extent_loc d = Some extent" and "new_extent_loc d = PyNone"
    and "UDFTag_parse None (take 16 data) (extent - start_extent) (drop 16 data) = Inr (desc_tag d)"
    and "512 \<le> length data" and "tag_ident (desc_tag d) = 256"
  using assms
  by (auto simp add: UDFFileSetDescriptor_parse_def unpack_from_def UDFFileSetDescriptor_FMT_def Let_def
      split: if_splits sum.splits)

lemma UDFFileEntry_parse_Inr:
  assumes "UDFFileEntry_parse self data extent start_extent = Inr d"
  shows "self = None" and "orig_extent_loc d = Some extent" and "new_extent_loc d = PyNone"
    and "UDFTag_parse None (take 16 data) (extent - start_extent) (take 168 (drop 16 data)) = Inr (desc_tag d)"
    and "176 \<le> length data" and "tag_ident (desc_tag d) = 261"
  using assms
  by (auto simp add: UDFFileEntry_parse_def unpack_from_def UDFFileEntry_FMT_def Let_def
      split: if_splits sum.splits)

lemma UDFFileIdentifierDescriptor_parse_Inr:
  assumes "UDFFileIdentifierDescriptor_parse self data extent start_extent = Inr (d, n)"
  shows "self = None" and "orig_extent_loc d = Some extent" and "new_extent_loc d = PyNone"
    and "UDFTag_parse None (take 16 data) (extent - start_extent) (drop 16 data) =
           Inr (desc_tag d)"
    and "38 \<le> length data" and "tag_ident (desc_tag d) = 257"
    and "fid_len_fi d = le_int (take 1 (drop 19 data))"
    and "fid_len_impl_use d = le_int (take 2 (drop 36 data))"
    and "n = 38 + fid_len_impl_use d + fid_len_fi d +
           UDFFileIdentifierDescriptor_pad (38 + fid_len_impl_use d + fid_len_fi d)"
  using assms
  by (auto simp add: UDFFileIdentifierDescriptor_parse_def unpack_from_def
        UDFFileIdentifierDescriptor_FMT_def Let_def
      split: if_splits sum.splits)

section \<open>The claims\<close>

subsection \<open>C2: the first ten entries of the CRC table\<close>

text \<open>
  The generator \<open>_initial\<close> does not mask to 16 bits: entry 1 of the table is 0x11021,
  not 0x1021, so the first ten entries are not the 16-bit values 0x0000, 0x1021, ...
\<close>

theorem C2_table_entries_are_not_masked:
  "initial 1 = 0x11021 \<and> tab ! 1 = 0x11021 \<and>
   take 10 tab \<noteq>
     [0x0000, 0x1021, 0x2042, 0x3063, 0x4084, 0x50A5, 0x60C6, 0x70E7, 0x8108, 0x9129]"
  by (simp add: take_10_tab tab_nth initial_unroll POLYNOMIAL_def)

text \<open>
  C2 (as the code has it).  The CRC-CCITT table generator, applied to the first ten
  indices 0..9, produces the unmasked entries 0x00000, 0x11021, 0x22042, 0x33063, 0x44084,
  0x550A5, 0x660C6, 0x770E7, 0x88108, 0x99129, and these are the first ten entries of the
  table.  Their low 16 bits are 0x0000, 0x1021, 0x2042, 0x3063, 0x4084, 0x50A5, 0x60C6,
  0x70E7, 0x8108, 0x9129, and these 16-bit values are what \<open>_update_crc\<close> yields from
  the table for the bytes 0..9 and a zero CRC, because it masks after the table lookup.
\<close>

theorem C2_first_ten_table_entries:
  "map initial [0, 1, 2, 3, 4, 5, 6, 7, 8, 9] =
     [0x00000, 0x11021, 0x22042, 0x33063, 0x44084, 0x550A5, 0x660C6, 0x770E7, 0x88108, 0x99129]
   \<and> take 10 tab =
     [0x00000, 0x11021, 0x22042, 0x33063, 0x44084, 0x550A5, 0x660C6, 0x770E7, 0x88108, 0x99129]
   \<and> map (\<lambda>e. e AND 0xffff) (take 10 tab) =
     [0x0000, 0x1021, 0x2042, 0x3063, 0x4084, 0x50A5, 0x60C6, 0x70E7, 0x8108, 0x9129]
   \<and> map (update_crc 0) [0, 1, 2, 3, 4, 5, 6, 7, 8, 9] =
     [0x0000, 0x1021, 0x2042, 0x3063, 0x4084, 0x50A5, 0x60C6, 0x70E7, 0x8108, 0x9129]"
proof (intro conjI)
  show "map initial [0, 1, 2, 3, 4, 5, 6, 7, 8, 9] =
     [0x00000, 0x11021, 0x22042, 0x33063, 0x44084, 0x550A5, 0x660C6, 0x770E7, 0x88108, 0x99129]"
    by (simp add: initial_unroll POLYNOMIAL_def)
  show "take 10 tab =
     [0x00000, 0x11021, 0x22042, 0x33063, 0x44084, 0x550A5, 0x660C6, 0x770E7, 0x88108, 0x99129]"
    by (simp add: take_10_tab initial_unroll POLYNOMIAL_def)
  show "map (\<lambda>e. e AND 0xffff) (take 10 tab) =
     [0x0000, 0x1021, 0x2042, 0x3063, 0x4084, 0x50A5, 0x60C6, 0x70E7, 0x8108, 0x9129]"
    by (simp add: take_10_tab initial_unroll POLYNOMIAL_def)
  show "map (update_crc 0) [0, 1, 2, 3, 4, 5, 6, 7, 8, 9] =
     [0x0000, 0x1021, 0x2042, 0x3063, 0x4084, 0x50A5, 0x60C6, 0x70E7, 0x8108, 0x9129]"
    by (simp add: update_crc_eval initial_unroll POLYNOMIAL_def)
qed

subsection \<open>C9: the tag does not keep the CRC fields it parsed\<close>

text \<open>
  \<open>UDFTag.record\<close> does not return for every byte buffer: the length of \<open>crc_bytes\<close> is
  packed into a 16-bit field, so for a tag made by \<open>new(2)\<close> and a window of 65536 bytes
  \<open>struct.pack\<close> raises and nothing is written.
\<close>

theorem C9_record_raises_on_long_window:
  "UDFTag_new None 2 0 =
     Inr \<lparr>tag_ident = 2, desc_version = 2, tag_serial_number = 0, tag_location = 0\<rparr> \<and>
   UDFTag_record
     (Some \<lparr>tag_ident = 2, desc_version = 2, tag_serial_number = 0, tag_location = 0\<rparr>)
     (replicate 65536 0) = Inl StructError"
  by (simp add: UDFTag_new_def UDFTag_record_cases tag_fields_ok_iff)

text \<open>
  C9 (as the code has it).  \<open>UDFTag.parse\<close> keeps \<open>tag_ident\<close>, \<open>desc_version\<close>,
  \<open>tag_serial_number\<close> and \<open>tag_location\<close> only, so neither \<open>desc_crc\<close> nor
  \<open>desc_crc_length\<close> is retained.  For every initialized tag and every byte buffer
  \<open>crc_bytes\<close>, \<open>record(crc_bytes)\<close> returns exactly when the four attributes fit their
  fields and \<open>crc_bytes\<close> is shorter than 65536 bytes, and raises \<open>struct.error\<close>
  otherwise; when it returns, the 16 bytes carry \<open>desc_crc = crc_ccitt(crc_bytes)\<close> and
  \<open>desc_crc_length = len(crc_bytes)\<close>, the length of the window supplied at emission
  and not the value read from the input.
\<close>

theorem C9_tag_record_recomputes_crc_fields:
  "(UDFTag_parse self data extent window = Inr t \<longrightarrow>
      t = \<lparr>tag_ident = le_int (take 2 data), desc_version = le_int (take 2 (drop 2 data)),
            tag_serial_number = le_int (take 2 (drop 6 data)),
            tag_location = tag_location_of data\<rparr>)
   \<and> ((\<exists>out. UDFTag_record (Some t') crc_bytes = Inr out) \<longleftrightarrow>
        tag_in_range t' \<and> length crc_bytes < 65536)
   \<and> (\<not> (tag_in_range t' \<and> length crc_bytes < 65536) \<longrightarrow>
        UDFTag_record (Some t') crc_bytes = Inl StructError)
   \<and> (UDFTag_record (Some t') crc_bytes = Inr out \<longrightarrow>
        length out = 16 \<and> desc_crc_of out = crc_ccitt crc_bytes \<and>
        desc_crc_length_of out = int (length crc_bytes))"
proof (intro conjI impI)
  assume "UDFTag_parse self data extent window = Inr t"
  then show "t = \<lparr>tag_ident = le_int (take 2 data),
      desc_version = le_int (take 2 (drop 2 data)),
      tag_serial_number = le_int (take 2 (drop 6 data)),
      tag_location = tag_location_of data\<rparr>"
    by (rule UDFTag_parse_Inr(3))
next
  show "(\<exists>out. UDFTag_record (Some t') crc_bytes = Inr out) \<longleftrightarrow>
      tag_in_range t' \<and> length crc_bytes < 65536"
    by (rule UDFTag_record_returns)
next
  assume "\<not> (tag_in_range t' \<and> length crc_bytes < 65536)"
  then show "UDFTag_record (Some t') crc_bytes = Inl StructError"
    by (rule UDFTag_record_raises)
next
  assume r: "UDFTag_record (Some t') crc_bytes = Inr out"
  show "length out = 16" using r by (rule UDFTag_record_Inr)
  show "desc_crc_of out = crc_ccitt crc_bytes" using r by (rule UDFTag_record_Inr)
  show "desc_crc_length_of out = int (length crc_bytes)" using r by (rule UDFTag_record_Inr)
qed

text \<open>
  A tag whose input has a zero \<open>desc_crc_length\<close> parses with an empty window; emitted
  again over the window \<open>01 02 03\<close> it carries the length 3 and the CRC 0x6131 of that
  window.
\<close>

theorem C9_tag_record_recomputes_crc_fields_witness:
  "UDFTag_parse None [2, 0, 2, 0, 5, 0, 0, 0, 0, 0, 0, 0, 0, 1, 0, 0] 256 [] =
     Inr \<lparr>tag_ident = 2, desc_version = 2, tag_serial_number = 0, tag_location = 256\<rparr> \<and>
   desc_crc_length_of [2, 0, 2, 0, 5, 0, 0, 0, 0, 0, 0, 0, 0, 1, 0, 0] = 0 \<and>
   tag_in_range \<lparr>tag_ident = 2, desc_version = 2, tag_serial_number = 0, tag_location = 256\<rparr> \<and>
   UDFTag_record
     (Some \<lparr>tag_ident = 2, desc_version = 2, tag_serial_number = 0, tag_location = 256\<rparr>)
     [1, 2, 3] = Inr [2, 0, 2, 0, 154, 0, 0, 0, 49, 97, 3, 0, 0, 1, 0, 0] \<and>
   desc_crc_of [2, 0, 2, 0, 154, 0, 0, 0, 49, 97, 3, 0, 0, 1, 0, 0] = crc_ccitt [1, 2, 3] \<and>
   crc_ccitt [1, 2, 3] = 0x6131 \<and>
   desc_crc_length_of [2, 0, 2, 0, 154, 0, 0, 0, 49, 97, 3, 0, 0, 1, 0, 0] = 3"
proof -
  have c: "crc_ccitt [1, 2, 3] = 0x6131" by (simp add: crc_eval)
  have p: "UDFTag_parse None [2, 0, 2, 0, 5, 0, 0, 0, 0, 0, 0, 0, 0, 1, 0, 0] 256 [] =
      Inr \<lparr>tag_ident = 2, desc_version = 2, tag_serial_number = 0, tag_location = 256\<rparr>"
    by (simp add: UDFTag_parse_def unpack_from_def UDFTag_FMT_def compute_csum_def)
  have r: "UDFTag_record
      (Some \<lparr>tag_ident = 2, desc_version = 2, tag_serial_number = 0, tag_location = 256\<rparr>)
      [1, 2, 3] = Inr [2, 0, 2, 0, 154, 0, 0, 0, 49, 97, 3, 0, 0, 1, 0, 0]"
    by (simp add: UDFTag_record_def pack_def UDFTag_FMT_def compute_csum_def c le_bytes_num)
  show ?thesis
    using C9_tag_record_recomputes_crc_fields
      [of None "[2, 0, 2, 0, 5, 0, 0, 0, 0, 0, 0, 0, 0, 1, 0, 0]" 256 "[]"
          "\<lparr>tag_ident = 2, desc_version = 2, tag_serial_number = 0, tag_location = 256\<rparr>"
          "\<lparr>tag_ident = 2, desc_version = 2, tag_serial_number = 0, tag_location = 256\<rparr>"
          "[1, 2, 3]" "[2, 0, 2, 0, 154, 0, 0, 0, 49, 97, 3, 0, 0, 1, 0, 0]"]
      p r c
    by (simp add: desc_crc_length_of_def tag_in_range_def)
qed

end
